theory Spec2Isabelle
  imports Main "HOL-Library.Word" "HOL-Library.Sublist"
begin

section \<open>Group replication metadata (group\_replication\_metadata.cc)\<close>

subsection \<open>Data model\<close>

text \<open>
  \<open>GroupReplicationMember\<close> is used by the source through its fields
  \<open>member_id\<close>, \<open>host\<close>, \<open>port\<close> (a \<open>uint16_t\<close>), \<open>state\<close> and \<open>role\<close>.
\<close>

datatype State = Online | Offline | Unreachable | Recovering | Other

datatype Role = Primary | Secondary

record GroupReplicationMember =
  member_id :: string
  host :: string
  port :: "16 word"
  state :: State
  role :: Role

text \<open>
  A \<open>MySQLSession::Row\<close> is a vector of C strings, each of which may be the null
  pointer. A field is \<open>None\<close> for the null pointer and otherwise the characters
  before the terminating NUL.
\<close>

type_synonym Row = "string option list"

text \<open>
  What can leave a function other than its return value: the two exception classes of
  the source, and abnormal termination of the process by a failed \<open>assert\<close>.
\<close>

datatype exn =
    MySQLSession_Error string nat
  | metadata_error string
  | Aborted

text \<open>
  The logger is called with a format string and its arguments; an argument of the
  warning may be a null pointer, so the arguments are kept as they are passed.
\<close>

datatype log_entry =
    log_warning string "string option list"
  | log_info string "string list"

subsection \<open>The session\<close>

text \<open>
  The server answers a statement with a result set or with an error (message and
  code). Its answer may depend on the statements it has seen before, so a session is
  the server's behaviour together with the statements issued so far, oldest first.
\<close>

datatype query_reply =
    Reply_rows "Row list"
  | Reply_error string nat

record MySQLSession =
  server :: "string list \<Rightarrow> string \<Rightarrow> query_reply"
  issued :: "string list"

text \<open>
  The row processor of \<open>MySQLSession::query\<close> is called once per row, in order. It
  returns \<open>true\<close> to ask for the next row and \<open>false\<close> to stop, or throws. The state
  \<open>'s\<close> stands for the variables the lambda captures by reference; it is kept also
  when the processor throws.
\<close>

fun run_processor ::
  "(Row \<Rightarrow> 's \<Rightarrow> 's \<times> (exn + bool)) \<Rightarrow> Row list \<Rightarrow> 's \<Rightarrow> 's \<times> (exn + unit)" where
  "run_processor f [] s = (s, Inr ())"
| "run_processor f (r # rs) s =
     (case f r s of
        (s', Inl e) \<Rightarrow> (s', Inl e)
      | (s', Inr again) \<Rightarrow> if again then run_processor f rs s' else (s', Inr ()))"

text \<open>
  Modelled from the spec: \<open>MySQLSession::query\<close> (mysql\_session.cc is not part of the
  sources at hand). The statement is sent, a failure raises \<open>MySQLSession::Error\<close>
  with the server's message and code, and otherwise every row is handed to the
  processor.
\<close>

definition query ::
  "MySQLSession \<Rightarrow> string \<Rightarrow> (Row \<Rightarrow> 's \<Rightarrow> 's \<times> (exn + bool)) \<Rightarrow> 's
     \<Rightarrow> MySQLSession \<times> 's \<times> (exn + unit)" where
  "query conn sql f s =
     (let conn' = conn\<lparr>issued := issued conn @ [sql]\<rparr> in
      case server conn (issued conn) sql of
        Reply_error msg code \<Rightarrow> (conn', s, Inl (MySQLSession_Error msg code))
      | Reply_rows rows \<Rightarrow>
          (case run_processor f rows s of (s', r) \<Rightarrow> (conn', s', r)))"

subsection \<open>Library functions used by the source\<close>

text \<open>\<open>std::to_string\<close> on an unsigned value: its decimal digits.\<close>

fun to_string :: "nat \<Rightarrow> string" where
  "to_string n =
     (if n < 10 then [''0123456789'' ! n]
      else to_string (n div 10) @ [''0123456789'' ! (n mod 10)])"

declare to_string.simps [simp del]

text \<open>
  \<open>std::atoi\<close>: skip white space, read an optional sign and then decimal digits up
  to the first character that is not a digit. The C library computes it as \<open>strtol\<close>
  narrowed to \<open>int\<close>; \<open>strtol\<close> saturates at the bounds of a 64-bit \<open>long\<close>.
\<close>

definition isspace :: "char \<Rightarrow> bool" where
  "isspace c = (c \<in> {CHR '' '', CHR 0x09, CHR 0x0A, CHR 0x0B, CHR 0x0C, CHR 0x0D})"

definition isdigit :: "char \<Rightarrow> bool" where
  "isdigit c = (48 \<le> (of_char c :: nat) \<and> (of_char c :: nat) \<le> 57)"

fun digits_value :: "int \<Rightarrow> string \<Rightarrow> int" where
  "digits_value acc [] = acc"
| "digits_value acc (c # cs) =
     (if isdigit c then digits_value (acc * 10 + (of_char c - 48)) cs else acc)"

definition strtol :: "string \<Rightarrow> int" where
  "strtol str =
     (let s = dropWhile isspace str;
          v = (case s of
                 [] \<Rightarrow> 0
               | c # cs \<Rightarrow>
                   if c = CHR ''-'' then - digits_value 0 cs
                   else if c = CHR ''+'' then digits_value 0 cs
                   else digits_value 0 s)
      in max (- (2 ^ 63)) (min (2 ^ 63 - 1) v))"

definition atoi :: "string \<Rightarrow> 32 word" where
  "atoi str = word_of_int (strtol str)"

subsection \<open>find\_group\_replication\_primary\_member\<close>

definition kPrimaryMemberQuery :: string where
  "kPrimaryMemberQuery =
     ''show status like '' @ [CHR 0x27] @ ''group_replication_primary_member'' @ [CHR 0x27]"

text \<open>
  The lambda of \<open>find_group_replication_primary_member\<close>; the captured variable is
  \<open>primary_member\<close>. \<open>assert\<close> is compiled out when \<open>NDEBUG\<close> is defined, which
  the first argument says; otherwise a first field that is not the variable's name
  (or is null) ends the process.
\<close>

definition primary_member_processor :: "bool \<Rightarrow> Row \<Rightarrow> string \<Rightarrow> string \<times> (exn + bool)" where
  "primary_member_processor ndebug row primary_member =
     (if length row \<noteq> 2 then
        (primary_member,
         Inl (metadata_error (''Unexpected number of fields in the status response. ''
                @ ''Expected = 2, got = '' @ to_string (length row))))
      else if \<not> ndebug \<and> row ! 0 \<noteq> Some ''group_replication_primary_member'' then
        (primary_member, Inl Aborted)
      else
        ((case row ! 1 of Some v \<Rightarrow> v | None \<Rightarrow> ''''), Inr False))"

definition find_group_replication_primary_member ::
  "bool \<Rightarrow> MySQLSession \<Rightarrow> MySQLSession \<times> (exn + string)" where
  "find_group_replication_primary_member ndebug connection =
     (case query connection kPrimaryMemberQuery (primary_member_processor ndebug) '''' of
        (conn', primary_member, Inl (MySQLSession_Error msg code)) \<Rightarrow>
          (conn', Inl (metadata_error msg))
      | (conn', primary_member, Inl e) \<Rightarrow> (conn', Inl e)
      | (conn', primary_member, Inr u) \<Rightarrow> (conn', Inr primary_member))"

subsection \<open>fetch\_group\_replication\_members\<close>

definition kMembersQuery :: string where
  "kMembersQuery =
     ''SELECT member_id, member_host, member_port, member_state, @@group_replication_single_primary_mode''
     @ '' FROM performance_schema.replication_group_members''
     @ '' WHERE channel_name = '' @ [CHR 0x27] @ ''group_replication_applier'' @ [CHR 0x27]"

text \<open>
  What the lambda of \<open>fetch_group_replication_members\<close> captures by reference and
  writes: the map being built, the caller's \<open>single_master\<close>, and the log.
\<close>

record fetch_vars =
  members :: "string \<rightharpoonup> GroupReplicationMember"
  single_master :: bool
  logged :: "log_entry list"

text \<open>Line 115: the fifth field says single-primary mode iff it is "1" or "ON".\<close>

definition single_primary_flag :: "string option \<Rightarrow> bool" where
  "single_primary_flag f = (case f of None \<Rightarrow> False | Some v \<Rightarrow> v = ''1'' \<or> v = ''ON'')"

text \<open>Lines 130 to 142: the state of a member from the fourth field.\<close>

definition member_state_of :: "string \<Rightarrow> State" where
  "member_state_of member_state =
     (if member_state = ''ONLINE'' then Online
      else if member_state = ''OFFLINE'' then Offline
      else if member_state = ''UNREACHABLE'' then Unreachable
      else if member_state = ''RECOVERING'' then Recovering
      else Other)"

text \<open>
  The lambda of \<open>fetch_group_replication_members\<close> (lines 88 to 155). The flag is
  stored in \<open>single_master\<close> before the null check, so it is written also for a row
  that is then refused.
\<close>

definition members_processor :: "string \<Rightarrow> Row \<Rightarrow> fetch_vars \<Rightarrow> fetch_vars \<times> (exn + bool)" where
  "members_processor primary_member row v =
     (if length row \<noteq> 5 then
        (v, Inl (metadata_error
                   (''Unexpected number of fields in resultset from group_replication query. ''
                    @ ''Expected = 5, got = '' @ to_string (length row))))
      else
        let v1 = v\<lparr>single_master := single_primary_flag (row ! 4)\<rparr> in
        case (row ! 0, row ! 1, row ! 2, row ! 3) of
          (Some mid, Some mhost, Some mport, Some mstate) \<Rightarrow>
            (let st = member_state_of mstate;
                 v2 = (if st = Other then
                         v1\<lparr>logged := logged v1 @
                            [log_info ''Unknown state %s in replication_group_members table for %s''
                               [mstate, mid]]\<rparr>
                       else v1);
                 member = \<lparr> member_id = mid, host = mhost,
                            port = ucast (atoi mport), state = st,
                            role = (if primary_member = mid \<or> \<not> single_master v2
                                    then Primary else Secondary) \<rparr>
             in (v2\<lparr>members := (members v2)(mid \<mapsto> member)\<rparr>, Inr True))
        | _ \<Rightarrow>
            (v1\<lparr>logged := logged v1 @
                 [log_warning ''Query %s returned %s, %s, %s, %s, %s''
                    [Some kMembersQuery, row ! 0, row ! 1, row ! 2, row ! 3, row ! 4]]\<rparr>,
             Inl (metadata_error ''Unexpected value in group_replication_metadata query results'')))"

text \<open>
  The function takes the session, the caller's \<open>single_master\<close> (a reference
  parameter, so its value before the call matters when no row is read) and the log so
  far. It gives back what it returns or throws, the final \<open>single_master\<close>, the
  session and the log. The local map is lost when an exception leaves the function.
  A session error is rethrown as a metadata error with the same message; the lambdas
  throw nothing but metadata errors, so the catch-all handlers of the source are never
  entered.
\<close>

definition fetch_group_replication_members ::
  "bool \<Rightarrow> MySQLSession \<Rightarrow> bool \<Rightarrow> log_entry list
     \<Rightarrow> (exn + (string \<rightharpoonup> GroupReplicationMember)) \<times> bool \<times> MySQLSession \<times> log_entry list" where
  "fetch_group_replication_members ndebug connection single_master0 log0 =
     (case find_group_replication_primary_member ndebug connection of
        (conn1, Inl e) \<Rightarrow> (Inl e, single_master0, conn1, log0)
      | (conn1, Inr primary_member) \<Rightarrow>
          (case query conn1 kMembersQuery (members_processor primary_member)
                  \<lparr> members = Map.empty, single_master = single_master0, logged = log0 \<rparr> of
             (conn2, v, Inl (MySQLSession_Error msg code)) \<Rightarrow>
               (Inl (metadata_error msg), single_master v, conn2, logged v)
           | (conn2, v, Inl e) \<Rightarrow> (Inl e, single_master v, conn2, logged v)
           | (conn2, v, Inr u) \<Rightarrow> (Inr (members v), single_master v, conn2, logged v)))"

section \<open>Bootstrap: option checks and account provisioning (config\_generator.cc)\<close>

text \<open>
  \<open>ConfigGenerator\<close> is declared in config\_generator.h and defined in
  config\_generator.cc; neither file is among the sources, only the unit tests that call
  it (test\_config\_generator.cc). The definitions of this section follow the
  specification's description of the component; the error codes and the message texts
  are those the unit tests use. Where the replay lists of the unit tests and the
  specification differ (the lists show no START TRANSACTION between a ROLLBACK and the
  next CREATE USER), the definitions follow the specification.
\<close>

text \<open>
  Modelled from the spec: the errors of a bootstrap run. A configuration error is a
  \<open>std::runtime_error\<close> with a message, a session error carries the server's message
  and code, and the provisioner has the two errors the specification names.
\<close>

datatype bootstrap_error =
    runtime_error string
  | session_error string nat
  | AccountCleanupError
  | PasswordPolicyError

text \<open>
  Modelled from the spec: reading an option value as a number. The specification calls
  a value that is not numeric a configuration error and does not say how a sign, white
  space or a suffix is treated; the unit tests refuse the empty string, "-1", "foo" and
  "2000bozo". A value is read here when it is a non-empty string of decimal digits.
\<close>

definition parse_decimal :: "string \<Rightarrow> nat option" where
  "parse_decimal s =
     (if s \<noteq> [] \<and> list_all isdigit s
      then Some (foldl (\<lambda>acc c. acc * 10 + (of_char c - 48)) 0 s)
      else None)"

subsection \<open>fill\_options\<close>

text \<open>
  Modelled from the spec: \<open>ConfigGenerator::Options\<close> and its endpoints, as far as the
  port numbers go (the bind address and the socket path of an endpoint are left out).
\<close>

record Endpoint =
  enabled :: bool
  endpoint_port :: nat

record Options =
  multi_master :: bool
  rw_endpoint :: Endpoint
  ro_endpoint :: Endpoint
  rw_x_endpoint :: Endpoint
  ro_x_endpoint :: Endpoint

text \<open>Modelled from the spec: the largest port number.\<close>

definition kMaxTCPPortNumber :: nat where
  "kMaxTCPPortNumber = 65535"

text \<open>
  Modelled from the spec: \<open>ConfigGenerator::fill_options\<close>, the part that sets the
  endpoint ports. The ports are derived from the base port by the offsets 0, 1, 2 and 3
  and must not exceed 65535; a base port that is malformed, zero or too large is
  refused with "Invalid base-port number" (the specification gives this much of the
  message). Without a base port the ports are 6446, 6447, 64460 and 64470, and in
  multi-master mode the read-only endpoints are off, as the unit test
  \<open>fill_options\<close> expects. The options bind-address, use-sockets and skip-tcp are not
  modelled, so the definition speaks for option maps without them.
\<close>

definition fill_options :: "bool \<Rightarrow> (string \<rightharpoonup> string) \<Rightarrow> bootstrap_error + Options" where
  "fill_options mm user_options =
     (case user_options ''base-port'' of
        None \<Rightarrow>
          Inr \<lparr> multi_master = mm,
                rw_endpoint = \<lparr> enabled = True, endpoint_port = 6446 \<rparr>,
                ro_endpoint = \<lparr> enabled = \<not> mm, endpoint_port = 6447 \<rparr>,
                rw_x_endpoint = \<lparr> enabled = True, endpoint_port = 64460 \<rparr>,
                ro_x_endpoint = \<lparr> enabled = \<not> mm, endpoint_port = 64470 \<rparr> \<rparr>
      | Some v \<Rightarrow>
          (case parse_decimal v of
             None \<Rightarrow> Inl (runtime_error ''Invalid base-port number'')
           | Some b \<Rightarrow>
               if b = 0 \<or> kMaxTCPPortNumber < b + 3
               then Inl (runtime_error ''Invalid base-port number'')
               else
                 Inr \<lparr> multi_master = mm,
                       rw_endpoint = \<lparr> enabled = True, endpoint_port = b \<rparr>,
                       ro_endpoint = \<lparr> enabled = \<not> mm, endpoint_port = b + 1 \<rparr>,
                       rw_x_endpoint = \<lparr> enabled = True, endpoint_port = b + 2 \<rparr>,
                       ro_x_endpoint = \<lparr> enabled = \<not> mm, endpoint_port = b + 3 \<rparr> \<rparr>))"

subsection \<open>The password-retries option\<close>

text \<open>Modelled from the spec: the default and the largest retry limit.\<close>

definition kDefaultPasswordRetries :: nat where
  "kDefaultPasswordRetries = 5"

definition kMaxPasswordRetries :: nat where
  "kMaxPasswordRetries = 10000"

text \<open>
  Modelled from the spec: the message of the configuration error for a bad
  password-retries value, as the unit test
  \<open>bootstrap_password_retry_param_wrong_values\<close> spells it.
\<close>

definition password_retries_message :: "string \<Rightarrow> string" where
  "password_retries_message v =
     ''Invalid password-retries value '' @ [CHR 0x27] @ v @ [CHR 0x27]
     @ ''; please pick a value from 1 to 10000''"

text \<open>
  Modelled from the spec: the retry limit of the account provisioner. The default is 5,
  the valid range is 1 to 10000, and a value out of range or not numeric is a
  configuration error.
\<close>

definition get_password_retries :: "(string \<rightharpoonup> string) \<Rightarrow> bootstrap_error + nat" where
  "get_password_retries user_options =
     (case user_options ''password-retries'' of
        None \<Rightarrow> Inr kDefaultPasswordRetries
      | Some v \<Rightarrow>
          (case parse_decimal v of
             None \<Rightarrow> Inl (runtime_error (password_retries_message v))
           | Some n \<Rightarrow>
               if 1 \<le> n \<and> n \<le> kMaxPasswordRetries then Inr n
               else Inl (runtime_error (password_retries_message v))))"

subsection \<open>The account provisioner\<close>

text \<open>
  Modelled from the spec: the statements of the provisioner's state machine, for the
  default host pattern. The two forms of CREATE USER carry the hash and the password.
\<close>

datatype statement =
    START_TRANSACTION
  | COUNT_ACCOUNTS
  | DROP_ACCOUNTS
  | CREATE_USER_HASHED string
  | CREATE_USER_PLAIN string
  | GRANT_METADATA
  | GRANT_GROUP_MEMBERS
  | GRANT_GROUP_MEMBER_STATS
  | UPDATE_ROUTER
  | COMMIT
  | ROLLBACK

text \<open>
  Modelled from the spec: the session as the provisioner uses it. \<open>execute\<close> sends one
  statement; the server accepts it, answers a count, or fails with a message and a
  numeric error code, and may take the earlier statements into account.
\<close>

datatype exec_reply =
    Exec_ok
  | Exec_count nat
  | Exec_error string nat

record db_session =
  db_server :: "statement list \<Rightarrow> statement \<Rightarrow> exec_reply"
  db_issued :: "statement list"

definition execute :: "db_session \<Rightarrow> statement \<Rightarrow> db_session \<times> exec_reply" where
  "execute s st = (s\<lparr>db_issued := db_issued s @ [st]\<rparr>, db_server s (db_issued s) st)"

text \<open>
  Modelled from the spec: the two error codes the provisioner looks at, 1524 (plugin
  not loaded) and 1819 (the password does not satisfy the policy); the numbers are
  those of the unit tests.
\<close>

definition kPluginNotLoaded :: nat where
  "kPluginNotLoaded = 1524"

definition kPasswordPolicy :: nat where
  "kPasswordPolicy = 1819"

text \<open>
  Modelled from the spec: step 3b, the plain CREATE USER with a generated password.
  \<open>passwords i\<close> is the \<open>i\<close>-th generated password and the second argument the
  number of attempts left. A failure is followed by ROLLBACK. On the policy error a new
  password is tried while attempts remain, after the transaction has been started
  again; when none remain the run ends with the policy error. Any other error is final.
\<close>

fun create_user_plain ::
  "(nat \<Rightarrow> string) \<Rightarrow> nat \<Rightarrow> nat \<Rightarrow> db_session
     \<Rightarrow> db_session \<times> (bootstrap_error + string)" where
  "create_user_plain passwords 0 i s = (s, Inl PasswordPolicyError)"
| "create_user_plain passwords (Suc n) i s =
     (case execute s (CREATE_USER_PLAIN (passwords i)) of
        (s1, Exec_error msg code) \<Rightarrow>
          (case execute s1 ROLLBACK of
             (s2, _) \<Rightarrow>
               if code = kPasswordPolicy then
                 (if n = 0 then (s2, Inl PasswordPolicyError)
                  else
                    (case execute s2 START_TRANSACTION of
                       (s3, Exec_error msg' code') \<Rightarrow> (s3, Inl (session_error msg' code'))
                     | (s3, _) \<Rightarrow> create_user_plain passwords n (Suc i) s3))
               else (s2, Inl (session_error msg code)))
      | (s1, _) \<Rightarrow> (s1, Inr (passwords i)))"

text \<open>
  Modelled from the spec: step 3 of the provisioner. With password hashing the first
  attempt is CREATE USER ... IDENTIFIED WITH the hash plugin. A failure is followed by
  ROLLBACK; when the server answered "plugin not loaded" the transaction is started
  again and the provisioner falls through to the plain form, and any other error is
  final.
\<close>

definition create_account ::
  "bool \<Rightarrow> (string \<Rightarrow> string) \<Rightarrow> (nat \<Rightarrow> string) \<Rightarrow> nat \<Rightarrow> db_session
     \<Rightarrow> db_session \<times> (bootstrap_error + string)" where
  "create_account hash_password hash passwords retries s =
     (if hash_password then
        (case execute s (CREATE_USER_HASHED (hash (passwords 0))) of
           (s1, Exec_error msg code) \<Rightarrow>
             (case execute s1 ROLLBACK of
                (s2, _) \<Rightarrow>
                  if code = kPluginNotLoaded then
                    (case execute s2 START_TRANSACTION of
                       (s3, Exec_error msg' code') \<Rightarrow> (s3, Inl (session_error msg' code'))
                     | (s3, _) \<Rightarrow> create_user_plain passwords retries 0 s3)
                  else (s2, Inl (session_error msg code)))
         | (s1, _) \<Rightarrow> (s1, Inr (passwords 0)))
      else create_user_plain passwords retries 0 s)"

text \<open>
  Modelled from the spec: a run of statements that stops at the first one the server
  refuses, and step 2 of the provisioner, which counts the existing accounts and drops
  them when there are any.
\<close>

fun execute_all ::
  "statement list \<Rightarrow> db_session \<Rightarrow> db_session \<times> (bootstrap_error + unit)" where
  "execute_all [] s = (s, Inr ())"
| "execute_all (st # sts) s =
     (case execute s st of
        (s1, Exec_error msg code) \<Rightarrow> (s1, Inl (session_error msg code))
      | (s1, _) \<Rightarrow> execute_all sts s1)"

definition delete_accounts :: "db_session \<Rightarrow> db_session \<times> (bootstrap_error + unit)" where
  "delete_accounts s =
     (case execute s COUNT_ACCOUNTS of
        (s1, Exec_error msg code) \<Rightarrow> (s1, Inl AccountCleanupError)
      | (s1, Exec_count n) \<Rightarrow>
          if n = 0 then (s1, Inr ())
          else (case execute s1 DROP_ACCOUNTS of
                  (s2, Exec_error msg code) \<Rightarrow> (s2, Inl AccountCleanupError)
                | (s2, _) \<Rightarrow> (s2, Inr ()))
      | (s1, Exec_ok) \<Rightarrow> (s1, Inr ()))"

text \<open>
  Modelled from the spec: the provisioner's run, steps 1 to 6. The retry limit is
  checked before any statement is sent. The password is hashed unless
  force-password-validation is set. The result is the secret handed to the caller.
\<close>

definition provision_account ::
  "(string \<rightharpoonup> string) \<Rightarrow> (string \<Rightarrow> string) \<Rightarrow> (nat \<Rightarrow> string) \<Rightarrow> db_session
     \<Rightarrow> db_session \<times> (bootstrap_error + string)" where
  "provision_account user_options hash passwords s =
     (case get_password_retries user_options of
        Inl e \<Rightarrow> (s, Inl e)
      | Inr retries \<Rightarrow>
          (case execute_all [START_TRANSACTION] s of
             (s1, Inl e) \<Rightarrow> (s1, Inl e)
           | (s1, Inr _) \<Rightarrow>
               (case delete_accounts s1 of
                  (s2, Inl e) \<Rightarrow> (s2, Inl e)
                | (s2, Inr _) \<Rightarrow>
                    (case create_account (user_options ''force-password-validation'' = None)
                            hash passwords retries s2 of
                       (s3, Inl e) \<Rightarrow> (s3, Inl e)
                     | (s3, Inr password) \<Rightarrow>
                         (case execute_all [GRANT_METADATA, GRANT_GROUP_MEMBERS,
                                  GRANT_GROUP_MEMBER_STATS, UPDATE_ROUTER, COMMIT] s3 of
                            (s4, Inl e) \<Rightarrow> (s4, Inl e)
                          | (s4, Inr _) \<Rightarrow> (s4, Inr password))))))"

section \<open>Notions used to state the properties\<close>

text \<open>
  A row the lambda accepts: five fields, the first four of them not null. The fifth
  field is not looked at.
\<close>

definition row_ok :: "Row \<Rightarrow> bool" where
  "row_ok r =
     (length r = 5 \<and> r ! 0 \<noteq> None \<and> r ! 1 \<noteq> None \<and> r ! 2 \<noteq> None \<and> r ! 3 \<noteq> None)"

text \<open>The rows of a result set that carry a given member id, in their order.\<close>

definition rows_of_member :: "string \<Rightarrow> Row list \<Rightarrow> Row list" where
  "rows_of_member k rows = filter (\<lambda>r. r ! 0 = Some k) rows"

text \<open>The member and the log lines that an accepted row gives.\<close>

definition row_member :: "string \<Rightarrow> Row \<Rightarrow> GroupReplicationMember" where
  "row_member p r =
     \<lparr> member_id = the (r ! 0), host = the (r ! 1), port = ucast (atoi (the (r ! 2))),
       state = member_state_of (the (r ! 3)),
       role = (if p = the (r ! 0) \<or> \<not> single_primary_flag (r ! 4) then Primary else Secondary) \<rparr>"

definition row_log :: "Row \<Rightarrow> log_entry list" where
  "row_log r =
     (if member_state_of (the (r ! 3)) = Other
      then [log_info ''Unknown state %s in replication_group_members table for %s''
              [the (r ! 3), the (r ! 0)]]
      else [])"

definition known_states :: "string set" where
  "known_states = {''ONLINE'', ''OFFLINE'', ''UNREACHABLE'', ''RECOVERING''}"

text \<open>
  The rows the lambda is called on: those up to and including the first one it does
  not accept.
\<close>

fun processed_rows :: "Row list \<Rightarrow> Row list" where
  "processed_rows [] = []"
| "processed_rows (r # rs) = (if row_ok r then r # processed_rows rs else [r])"

text \<open>
  What the status query leaves in \<open>primary_member\<close>: the second field of the first
  row, the empty string when that field is null or there is no row.
\<close>

definition first_value :: "Row list \<Rightarrow> string" where
  "first_value rs =
     (case rs of [] \<Rightarrow> '''' | r # _ \<Rightarrow> (case r ! 1 of Some v \<Rightarrow> v | None \<Rightarrow> ''''))"

text \<open>
  The server accepts the statements of a list when they are sent one after the other,
  starting after the statements \<open>h\<close>: none of them is answered with an error.
\<close>

fun accepted :: "db_session \<Rightarrow> statement list \<Rightarrow> statement list \<Rightarrow> bool" where
  "accepted s h [] = True"
| "accepted s h (st # sts) =
     ((case db_server s h st of Exec_error msg code \<Rightarrow> False | _ \<Rightarrow> True)
      \<and> accepted s (h @ [st]) sts)"

subsection \<open>Example sessions\<close>

text \<open>
  A session that answers the statements in order from a fixed list, as the replayer of
  the unit tests does.
\<close>

definition replayer :: "query_reply list \<Rightarrow> MySQLSession" where
  "replayer replies =
     \<lparr> server = (\<lambda>h q. if length h < length replies then replies ! length h
                        else Reply_error ''unexpected query'' 0),
       issued = [] \<rparr>"

definition rows_pm :: "Row list" where
  "rows_pm = [[Some ''a'', Some ''h1'', Some ''3310'', Some ''ONLINE'', Some ''1''],
              [Some ''b'', Some ''h2'', Some ''3320'', Some ''ERROR'', Some ''1'']]"

definition session_pm :: MySQLSession where
  "session_pm = replayer
     [Reply_rows [[Some ''group_replication_primary_member'', Some ''a'']], Reply_rows rows_pm]"

definition members_pm :: "string \<rightharpoonup> GroupReplicationMember" where
  "members_pm =
     [''a'' \<mapsto> \<lparr> member_id = ''a'', host = ''h1'', port = 3310, state = Online, role = Primary \<rparr>,
      ''b'' \<mapsto> \<lparr> member_id = ''b'', host = ''h2'', port = 3320, state = Other, role = Secondary \<rparr>]"

definition rows_null :: "Row list" where
  "rows_null = [[Some ''a'', Some ''h1'', Some ''3310'', Some ''ONLINE'', Some ''1''],
                [Some ''b'', None, Some ''3320'', Some ''ONLINE'', Some ''1'']]"

definition session_null :: MySQLSession where
  "session_null = replayer
     [Reply_rows [[Some ''group_replication_primary_member'', Some ''a'']], Reply_rows rows_null]"

definition rows_mixed :: "Row list" where
  "rows_mixed = [[Some ''b'', Some ''h1'', Some ''3310'', Some ''ONLINE'', Some ''ON''],
                 [Some ''c'', Some ''h2'', Some ''3320'', Some ''ONLINE'', None]]"

definition session_mixed :: MySQLSession where
  "session_mixed = replayer
     [Reply_rows [[Some ''group_replication_primary_member'', Some ''a'']], Reply_rows rows_mixed]"

definition members_mixed :: "string \<rightharpoonup> GroupReplicationMember" where
  "members_mixed =
     [''b'' \<mapsto> \<lparr> member_id = ''b'', host = ''h1'', port = 3310, state = Online, role = Secondary \<rparr>,
      ''c'' \<mapsto> \<lparr> member_id = ''c'', host = ''h2'', port = 3320, state = Online, role = Primary \<rparr>]"

definition rows_two_flags :: "Row list" where
  "rows_two_flags = [[Some ''b'', Some ''h1'', Some ''3310'', Some ''ONLINE'', Some ''1''],
                     [Some ''c'', Some ''h2'', Some ''3320'', Some ''ONLINE'', Some ''0'']]"

definition session_two_flags :: MySQLSession where
  "session_two_flags = replayer
     [Reply_rows [[Some ''group_replication_primary_member'', Some ''a'']],
      Reply_rows rows_two_flags]"

definition members_two_flags :: "string \<rightharpoonup> GroupReplicationMember" where
  "members_two_flags =
     [''b'' \<mapsto> \<lparr> member_id = ''b'', host = ''h1'', port = 3310, state = Online, role = Secondary \<rparr>,
      ''c'' \<mapsto> \<lparr> member_id = ''c'', host = ''h2'', port = 3320, state = Online, role = Primary \<rparr>]"

text \<open>
  Sessions for the provisioner: one that answers from a fixed list, and a server
  without the native password plugin that already holds one account of the router. It
  refuses the hashed CREATE USER with error 1524 and accepts everything else.
\<close>

definition replay_db :: "exec_reply list \<Rightarrow> db_session" where
  "replay_db replies =
     \<lparr> db_server = (\<lambda>h st. if length h < length replies then replies ! length h else Exec_ok),
       db_issued = [] \<rparr>"

definition db_no_native_plugin :: db_session where
  "db_no_native_plugin =
     \<lparr> db_server = (\<lambda>h st. case st of
                               CREATE_USER_HASHED x \<Rightarrow> Exec_error ''ERROR:'' 1524
                             | COUNT_ACCOUNTS \<Rightarrow> Exec_count 1
                             | _ \<Rightarrow> Exec_ok),
       db_issued = [] \<rparr>"

section \<open>Properties of fetch\_group\_replication\_members\<close>

subsection \<open>One row\<close>

lemma members_processor_ok:
  assumes "row_ok r"
  shows "members_processor p r v =
           (v\<lparr>single_master := single_primary_flag (r ! 4),
              logged := logged v @ row_log r,
              members := (members v)(the (r ! 0) \<mapsto> row_member p r)\<rparr>, Inr True)"
  using assms
  by (auto simp: row_ok_def members_processor_def row_member_def row_log_def Let_def)

lemma members_processor_bad:
  assumes "\<not> row_ok r"
  shows "\<exists>v' msg. members_processor p r v = (v', Inl (metadata_error msg))"
  using assms
  by (auto simp: row_ok_def members_processor_def Let_def split: option.splits)

lemma row_ok_no_null:
  assumes "row_ok r"
  shows "None \<notin> set (take 4 r)"
proof -
  from assms have "length r = 5" by (simp add: row_ok_def)
  then obtain a b c d e where r: "r = [a, b, c, d, e]"
    by (auto simp: numeral_eq_Suc length_Suc_conv)
  with assms show ?thesis by (auto simp: row_ok_def numeral_eq_Suc)
qed

lemma member_state_of_Other: "member_state_of s = Other \<longleftrightarrow> s \<notin> known_states"
  by (simp add: member_state_of_def known_states_def)

subsection \<open>The rows of a result set\<close>

lemma run_bad:
  "r \<in> set rows \<Longrightarrow> \<not> row_ok r \<Longrightarrow>
   \<exists>v' msg. run_processor (members_processor p) rows v = (v', Inl (metadata_error msg))"
proof (induction rows arbitrary: v)
  case Nil
  then show ?case by simp
next
  case (Cons a rows)
  show ?case
  proof (cases "row_ok a")
    case True
    with Cons.prems have "r \<in> set rows" by auto
    from Cons.IH[OF this Cons.prems(2)] show ?thesis
      by (simp add: members_processor_ok[OF True])
  next
    case False
    from members_processor_bad[OF this, of p v] show ?thesis by auto
  qed
qed

lemma run_ok:
  "\<forall>r\<in>set rows. row_ok r \<Longrightarrow>
   \<exists>v'. run_processor (members_processor p) rows v = (v', Inr ())
      \<and> logged v' = logged v @ concat (map row_log rows)
      \<and> single_master v' =
          (if rows = [] then single_master v else single_primary_flag (last rows ! 4))
      \<and> (\<forall>k. members v' k =
                (if rows_of_member k rows = [] then members v k
                 else Some (row_member p (last (rows_of_member k rows)))))"
proof (induction rows arbitrary: v)
  case Nil
  then show ?case by (simp add: rows_of_member_def)
next
  case (Cons a rows)
  then have a: "row_ok a" and rs: "\<forall>r\<in>set rows. row_ok r" by auto
  let ?v1 = "v\<lparr>single_master := single_primary_flag (a ! 4),
              logged := logged v @ row_log a,
              members := (members v)(the (a ! 0) \<mapsto> row_member p a)\<rparr>"
  from Cons.IH[OF rs, of ?v1] obtain v' where
    r: "run_processor (members_processor p) rows ?v1 = (v', Inr ())"
    and l: "logged v' = logged ?v1 @ concat (map row_log rows)"
    and s: "single_master v' =
              (if rows = [] then single_master ?v1 else single_primary_flag (last rows ! 4))"
    and m: "\<forall>k. members v' k =
                (if rows_of_member k rows = [] then members ?v1 k
                 else Some (row_member p (last (rows_of_member k rows))))"
    by blast
  have id: "a ! 0 = Some (the (a ! 0))" using a by (auto simp: row_ok_def)
  have "run_processor (members_processor p) (a # rows) v = (v', Inr ())"
    using r by (simp add: members_processor_ok[OF a])
  moreover have "logged v' = logged v @ concat (map row_log (a # rows))"
    using l by simp
  moreover have "single_master v' = single_primary_flag (last (a # rows) ! 4)"
    using s by simp
  moreover have "members v' k =
                   (if rows_of_member k (a # rows) = [] then members v k
                    else Some (row_member p (last (rows_of_member k (a # rows)))))" for k
    using m id by (auto simp: rows_of_member_def)
  ultimately show ?case by simp
qed

lemma run_bad_message:
  "\<forall>x\<in>set rows. length x = 5 \<Longrightarrow>
   run_processor (members_processor p) rows v = (v', Inl e) \<Longrightarrow>
   e = metadata_error ''Unexpected value in group_replication_metadata query results''"
proof (induction rows arbitrary: v)
  case Nil
  then show ?case by simp
next
  case (Cons a rows)
  show ?case
  proof (cases "row_ok a")
    case True
    from Cons.prems(2) have "run_processor (members_processor p) rows
        (v\<lparr>single_master := single_primary_flag (a ! 4),
              logged := logged v @ row_log a,
              members := (members v)(the (a ! 0) \<mapsto> row_member p a)\<rparr>) = (v', Inl e)"
      by (simp add: members_processor_ok[OF True])
    with Cons.IH Cons.prems(1) show ?thesis by auto
  next
    case False
    with Cons.prems show ?thesis
      by (auto simp: row_ok_def members_processor_def Let_def split: option.splits)
  qed
qed

lemma run_single_master:
  "run_processor (members_processor p) rows v = (v', res) \<Longrightarrow>
   single_master v' =
     (let rs = filter (\<lambda>r. length r = 5) (processed_rows rows)
      in if rs = [] then single_master v else single_primary_flag (last rs ! 4))"
proof (induction rows arbitrary: v)
  case Nil
  then show ?case by simp
next
  case (Cons a rows)
  show ?case
  proof (cases "row_ok a")
    case True
    then have len: "length a = 5" by (simp add: row_ok_def)
    from Cons.prems have "run_processor (members_processor p) rows
        (v\<lparr>single_master := single_primary_flag (a ! 4),
              logged := logged v @ row_log a,
              members := (members v)(the (a ! 0) \<mapsto> row_member p a)\<rparr>) = (v', res)"
      by (simp add: members_processor_ok[OF True])
    from Cons.IH[OF this] True len show ?thesis by (simp add: Let_def)
  next
    case False
    with Cons.prems show ?thesis
      by (auto simp: row_ok_def members_processor_def Let_def split: option.splits)
  qed
qed

lemma concat_row_log:
  "concat (map row_log rows) =
     map (\<lambda>r. log_info ''Unknown state %s in replication_group_members table for %s''
                 [the (r ! 3), the (r ! 0)])
       (filter (\<lambda>r. the (r ! 3) \<notin> known_states) rows)"
  by (induction rows) (auto simp: row_log_def member_state_of_Other)

subsection \<open>The two statements\<close>

lemma find_primary_session:
  "find_group_replication_primary_member ndebug conn = (conn1, res) \<Longrightarrow>
   conn1 = conn\<lparr>issued := issued conn @ [kPrimaryMemberQuery]\<rparr>"
  by (auto simp: find_group_replication_primary_member_def query_def Let_def
      split: query_reply.splits prod.splits sum.splits exn.splits)

lemma find_primary_value:
  assumes "find_group_replication_primary_member ndebug conn = (conn1, Inr p)"
  shows "\<exists>rs. server conn (issued conn) kPrimaryMemberQuery = Reply_rows rs \<and> p = first_value rs"
proof (cases "server conn (issued conn) kPrimaryMemberQuery")
  case (Reply_error msg code)
  with assms show ?thesis
    by (simp add: find_group_replication_primary_member_def query_def)
next
  case (Reply_rows rs)
  with assms have "p = first_value rs"
    by (cases rs)
       (auto simp: find_group_replication_primary_member_def query_def first_value_def
          primary_member_processor_def split: if_splits)
  with Reply_rows show ?thesis by simp
qed

lemma fetch_primary_failed:
  assumes "find_group_replication_primary_member ndebug conn = (conn1, Inl e)"
  shows "fetch_group_replication_members ndebug conn sm0 lg0 =
           (Inl e, sm0, conn\<lparr>issued := issued conn @ [kPrimaryMemberQuery]\<rparr>, lg0)"
  using assms find_primary_session[OF assms]
  by (simp add: fetch_group_replication_members_def)

lemma fetch_members_query_failed:
  assumes f: "find_group_replication_primary_member ndebug conn = (conn1, Inr p)"
    and s: "server conn (issued conn @ [kPrimaryMemberQuery]) kMembersQuery = Reply_error msg code"
  shows "fetch_group_replication_members ndebug conn sm0 lg0 =
           (Inl (metadata_error msg), sm0,
            conn\<lparr>issued := issued conn @ [kPrimaryMemberQuery, kMembersQuery]\<rparr>, lg0)"
  using f s unfolding fetch_group_replication_members_def find_primary_session[OF f]
  by (simp add: query_def)

lemma fetch_unfold:
  assumes f: "find_group_replication_primary_member ndebug conn = (conn1, Inr p)"
    and s: "server conn (issued conn @ [kPrimaryMemberQuery]) kMembersQuery = Reply_rows rows"
    and r: "run_processor (members_processor p) rows
              \<lparr> members = Map.empty, single_master = sm0, logged = lg0 \<rparr> = (v, res)"
  shows "fetch_group_replication_members ndebug conn sm0 lg0 =
           ((case res of Inl e \<Rightarrow> Inl e | Inr u \<Rightarrow> Inr (members v)),
            single_master v,
            conn\<lparr>issued := issued conn @ [kPrimaryMemberQuery, kMembersQuery]\<rparr>,
            logged v)"
proof -
  have c1: "conn1 = conn\<lparr>issued := issued conn @ [kPrimaryMemberQuery]\<rparr>"
    using find_primary_session[OF f] .
  have res: "res = Inr () \<or> (\<exists>msg. res = Inl (metadata_error msg))"
  proof (cases "\<forall>r\<in>set rows. row_ok r")
    case True
    from run_ok[OF True, of p "\<lparr> members = Map.empty, single_master = sm0, logged = lg0 \<rparr>"] r
    show ?thesis by auto
  next
    case False
    then obtain x where "x \<in> set rows" "\<not> row_ok x" by blast
    from run_bad[OF this, of p "\<lparr> members = Map.empty, single_master = sm0, logged = lg0 \<rparr>"] r
    show ?thesis by auto
  qed
  show ?thesis
    using res f s r unfolding fetch_group_replication_members_def c1
    by (auto simp: query_def Let_def)
qed

lemma fetch_success:
  assumes f: "find_group_replication_primary_member ndebug conn = (conn1, Inr p)"
    and s: "server conn (issued conn @ [kPrimaryMemberQuery]) kMembersQuery = Reply_rows rows"
    and r: "fetch_group_replication_members ndebug conn sm0 lg0 = (Inr ms, sm, conn2, lg)"
  shows "(\<forall>x\<in>set rows. row_ok x) \<and>
         sm = (if rows = [] then sm0 else single_primary_flag (last rows ! 4)) \<and>
         lg = lg0 @ concat (map row_log rows) \<and>
         conn2 = conn\<lparr>issued := issued conn @ [kPrimaryMemberQuery, kMembersQuery]\<rparr> \<and>
         (\<forall>k. ms k = (if rows_of_member k rows = [] then None
                       else Some (row_member p (last (rows_of_member k rows)))))"
proof -
  let ?v0 = "\<lparr> members = Map.empty, single_master = sm0, logged = lg0 \<rparr>"
  obtain v res where run: "run_processor (members_processor p) rows ?v0 = (v, res)"
    by (cases "run_processor (members_processor p) rows ?v0") auto
  from fetch_unfold[OF f s run] r
  have res: "(case res of Inl e \<Rightarrow> Inl e | Inr u \<Rightarrow> Inr (members v)) = Inr ms"
    and sm: "sm = single_master v" and lg: "lg = logged v"
    and c: "conn2 = conn\<lparr>issued := issued conn @ [kPrimaryMemberQuery, kMembersQuery]\<rparr>"
    by auto
  have ok: "\<forall>x\<in>set rows. row_ok x"
  proof (rule ccontr)
    assume "\<not> (\<forall>x\<in>set rows. row_ok x)"
    then obtain x where "x \<in> set rows" "\<not> row_ok x" by blast
    from run_bad[OF this, of p ?v0] run res show False by auto
  qed
  from run_ok[OF ok, of p ?v0] run res sm lg c ok show ?thesis by auto
qed

subsection \<open>The example sessions, evaluated\<close>

lemma port_3310: "(ucast (atoi ''3310'') :: 16 word) = 3310"
  by (simp add: atoi_def strtol_def isspace_def isdigit_def)

lemma port_3320: "(ucast (atoi ''3320'') :: 16 word) = 3320"
  by (simp add: atoi_def strtol_def isspace_def isdigit_def)

lemma find_session_pm:
  "find_group_replication_primary_member True session_pm =
     (session_pm\<lparr>issued := issued session_pm @ [kPrimaryMemberQuery]\<rparr>, Inr ''a'')"
  by (simp add: session_pm_def replayer_def find_group_replication_primary_member_def query_def
      primary_member_processor_def)

lemma reply_session_pm:
  "server session_pm (issued session_pm @ [kPrimaryMemberQuery]) kMembersQuery = Reply_rows rows_pm"
  by (simp add: session_pm_def replayer_def)

lemma fetch_session_pm:
  "fetch_group_replication_members True session_pm False [] =
     (Inr members_pm, True,
      session_pm\<lparr>issued := issued session_pm @ [kPrimaryMemberQuery, kMembersQuery]\<rparr>,
      [log_info ''Unknown state %s in replication_group_members table for %s'' [''ERROR'', ''b'']])"
  unfolding fetch_group_replication_members_def find_session_pm
  by (simp add: query_def reply_session_pm rows_pm_def members_processor_def
      single_primary_flag_def member_state_of_def members_pm_def port_3310 port_3320)

lemma find_session_null:
  "find_group_replication_primary_member True session_null =
     (session_null\<lparr>issued := issued session_null @ [kPrimaryMemberQuery]\<rparr>, Inr ''a'')"
  by (simp add: session_null_def replayer_def find_group_replication_primary_member_def query_def
      primary_member_processor_def)

lemma reply_session_null:
  "server session_null (issued session_null @ [kPrimaryMemberQuery]) kMembersQuery
     = Reply_rows rows_null"
  by (simp add: session_null_def replayer_def)

lemma fetch_session_null:
  "fetch_group_replication_members True session_null False [] =
     (Inl (metadata_error ''Unexpected value in group_replication_metadata query results''), True,
      session_null\<lparr>issued := issued session_null @ [kPrimaryMemberQuery, kMembersQuery]\<rparr>,
      [log_warning ''Query %s returned %s, %s, %s, %s, %s''
         [Some kMembersQuery, Some ''b'', None, Some ''3320'', Some ''ONLINE'', Some ''1'']])"
  unfolding fetch_group_replication_members_def find_session_null
  by (simp add: query_def reply_session_null rows_null_def members_processor_def
      single_primary_flag_def member_state_of_def port_3310)

subsection \<open>Roles\<close>

lemma find_session_two_flags:
  "find_group_replication_primary_member True session_two_flags =
     (session_two_flags\<lparr>issued := issued session_two_flags @ [kPrimaryMemberQuery]\<rparr>, Inr ''a'')"
  by (simp add: session_two_flags_def replayer_def find_group_replication_primary_member_def
      query_def primary_member_processor_def)

lemma reply_session_two_flags:
  "server session_two_flags (issued session_two_flags @ [kPrimaryMemberQuery]) kMembersQuery
     = Reply_rows rows_two_flags"
  by (simp add: session_two_flags_def replayer_def)

lemma fetch_session_two_flags:
  "fetch_group_replication_members True session_two_flags True [] =
     (Inr members_two_flags, False,
      session_two_flags\<lparr>issued := issued session_two_flags @ [kPrimaryMemberQuery, kMembersQuery]\<rparr>,
      [])"
  unfolding fetch_group_replication_members_def find_session_two_flags
  by (simp add: query_def reply_session_two_flags rows_two_flags_def members_processor_def
      single_primary_flag_def member_state_of_def members_two_flags_def port_3310 port_3320)

text \<open>
  Claim C1, as it stands, says for every membership result set: if the single-primary
  flag is false, every member's role is Primary and no member is Secondary. The flag
  the function reports is \<open>single_master\<close>. For the result set \<open>rows_two_flags\<close>,
  whose first row carries the flag "1" and whose second row the flag "0", the call
  succeeds and reports \<open>single_master = false\<close>, and the member of the first row is
  Secondary.
\<close>

theorem fetch_roles_counterexample:
  "server session_two_flags (issued session_two_flags @ [kPrimaryMemberQuery]) kMembersQuery
     = Reply_rows rows_two_flags \<and>
   fetch_group_replication_members True session_two_flags True [] =
     (Inr members_two_flags, False,
      session_two_flags\<lparr>issued := issued session_two_flags @ [kPrimaryMemberQuery, kMembersQuery]\<rparr>,
      []) \<and>
   map_option role (members_two_flags ''b'') = Some Secondary"
  using reply_session_two_flags fetch_session_two_flags
  by (simp add: members_two_flags_def)

text \<open>
  Claim C1, amended. For every membership result set that
  \<open>fetch_group_replication_members\<close> processes, the role of a member follows the
  single-primary flag of its own row (the last row with its id): where that flag is
  true, the member is Primary iff its member id is the primary id that the preceding
  status query returned, and Secondary otherwise; where that flag is false, the member
  is Primary. When every row carries the same flag, that flag is the
  \<open>single_master\<close> the function reports, and then: if it is true, a member is Primary
  iff its id is the primary id and every other member is Secondary; if it is false,
  every member is Primary and none is Secondary.
\<close>

theorem fetch_roles:
  assumes f: "find_group_replication_primary_member ndebug conn = (conn1, Inr primary)"
    and s: "server conn (issued conn @ [kPrimaryMemberQuery]) kMembersQuery = Reply_rows rows"
    and r: "fetch_group_replication_members ndebug conn sm0 lg0 = (Inr ms, sm, conn2, lg)"
    and m: "ms k = Some m"
  shows "member_id m = k \<and> rows_of_member k rows \<noteq> [] \<and>
         (single_primary_flag (last (rows_of_member k rows) ! 4) \<longrightarrow>
            (role m = Primary \<longleftrightarrow> k = primary) \<and> (k \<noteq> primary \<longrightarrow> role m = Secondary)) \<and>
         (\<not> single_primary_flag (last (rows_of_member k rows) ! 4) \<longrightarrow> role m = Primary) \<and>
         ((\<forall>r\<in>set rows. single_primary_flag (r ! 4)) \<longrightarrow>
            sm \<and> (role m = Primary \<longleftrightarrow> k = primary) \<and> (k \<noteq> primary \<longrightarrow> role m = Secondary)) \<and>
         ((\<forall>r\<in>set rows. \<not> single_primary_flag (r ! 4)) \<longrightarrow> \<not> sm \<and> role m = Primary)"
proof -
  from fetch_success[OF f s r]
  have ms: "ms k = (if rows_of_member k rows = [] then None
                    else Some (row_member primary (last (rows_of_member k rows))))"
    and sm: "sm = (if rows = [] then sm0 else single_primary_flag (last rows ! 4))"
    by auto
  from ms m have ne: "rows_of_member k rows \<noteq> []"
    and mm: "m = row_member primary (last (rows_of_member k rows))"
    by (auto split: if_splits)
  let ?r = "last (rows_of_member k rows)"
  have "?r \<in> set (rows_of_member k rows)" using ne by simp
  then have rin: "?r \<in> set rows" and rid: "?r ! 0 = Some k"
    by (auto simp: rows_of_member_def)
  have rows_ne: "rows \<noteq> []" using rin by auto
  then have lastin: "last rows \<in> set rows" by simp
  have idk: "member_id m = k" using mm rid by (simp add: row_member_def)
  have role: "role m =
      (if primary = k \<or> \<not> single_primary_flag (?r ! 4) then Primary else Secondary)"
    using mm rid by (simp add: row_member_def)
  have smlast: "sm = single_primary_flag (last rows ! 4)" using sm rows_ne by simp
  show ?thesis
    using idk ne role rin lastin smlast by auto
qed

theorem fetch_roles_witness:
  "find_group_replication_primary_member True session_pm =
     (session_pm\<lparr>issued := issued session_pm @ [kPrimaryMemberQuery]\<rparr>, Inr ''a'') \<and>
   server session_pm (issued session_pm @ [kPrimaryMemberQuery]) kMembersQuery = Reply_rows rows_pm \<and>
   fetch_group_replication_members True session_pm False [] =
     (Inr members_pm, True,
      session_pm\<lparr>issued := issued session_pm @ [kPrimaryMemberQuery, kMembersQuery]\<rparr>,
      [log_info ''Unknown state %s in replication_group_members table for %s'' [''ERROR'', ''b'']]) \<and>
   members_pm ''b'' =
     Some \<lparr> member_id = ''b'', host = ''h2'', port = 3320, state = Other, role = Secondary \<rparr> \<and>
   single_primary_flag (last (rows_of_member ''b'' rows_pm) ! 4) \<and>
   role \<lparr> member_id = ''b'', host = ''h2'', port = 3320, state = Other, role = Secondary \<rparr>
     = Secondary \<and>
   ''b'' \<noteq> ''a''"
proof -
  have m: "members_pm ''b'' =
     Some \<lparr> member_id = ''b'', host = ''h2'', port = 3320, state = Other, role = Secondary \<rparr>"
    by (simp add: members_pm_def)
  have fl: "single_primary_flag (last (rows_of_member ''b'' rows_pm) ! 4)"
    by (simp add: rows_of_member_def rows_pm_def single_primary_flag_def)
  from fetch_roles[OF find_session_pm reply_session_pm fetch_session_pm m]
    find_session_pm reply_session_pm fetch_session_pm m fl
  show ?thesis by simp
qed

subsection \<open>Null fields\<close>

text \<open>
  Claim C2. For every row of the membership result set, if the member id, host, port
  or state field is null, \<open>fetch_group_replication_members\<close> raises a metadata error
  and returns no member map; the row is never skipped. When all rows have five fields
  the error is the one about an unexpected value.
\<close>

theorem fetch_null_field_rejected:
  assumes f: "find_group_replication_primary_member ndebug conn = (conn1, Inr primary)"
    and s: "server conn (issued conn @ [kPrimaryMemberQuery]) kMembersQuery = Reply_rows rows"
    and r: "r \<in> set rows"
    and n: "None \<in> set (take 4 r)"
  shows "\<exists>msg sm lg.
           fetch_group_replication_members ndebug conn sm0 lg0 =
             (Inl (metadata_error msg), sm,
              conn\<lparr>issued := issued conn @ [kPrimaryMemberQuery, kMembersQuery]\<rparr>, lg) \<and>
           ((\<forall>x\<in>set rows. length x = 5) \<longrightarrow>
              msg = ''Unexpected value in group_replication_metadata query results'')"
proof -
  let ?v0 = "\<lparr> members = Map.empty, single_master = sm0, logged = lg0 \<rparr>"
  from n have bad: "\<not> row_ok r" using row_ok_no_null by blast
  from run_bad[OF r bad, of primary ?v0] obtain v msg where
    run: "run_processor (members_processor primary) rows ?v0 = (v, Inl (metadata_error msg))"
    by blast
  have "(\<forall>x\<in>set rows. length x = 5) \<longrightarrow>
              msg = ''Unexpected value in group_replication_metadata query results''"
    using run_bad_message[OF _ run] by blast
  with fetch_unfold[OF f s run] show ?thesis by simp
qed

theorem fetch_null_field_rejected_witness:
  "find_group_replication_primary_member True session_null =
     (session_null\<lparr>issued := issued session_null @ [kPrimaryMemberQuery]\<rparr>, Inr ''a'') \<and>
   server session_null (issued session_null @ [kPrimaryMemberQuery]) kMembersQuery
     = Reply_rows rows_null \<and>
   [Some ''b'', None, Some ''3320'', Some ''ONLINE'', Some ''1''] \<in> set rows_null \<and>
   None \<in> set (take 4 [Some ''b'', None, Some ''3320'', Some ''ONLINE'', Some ''1'']) \<and>
   (\<exists>msg sm lg.
      fetch_group_replication_members True session_null False [] =
        (Inl (metadata_error msg), sm,
         session_null\<lparr>issued := issued session_null @ [kPrimaryMemberQuery, kMembersQuery]\<rparr>, lg) \<and>
      msg = ''Unexpected value in group_replication_metadata query results'')"
proof -
  have r: "[Some ''b'', None, Some ''3320'', Some ''ONLINE'', Some ''1''] \<in> set rows_null"
    by (simp add: rows_null_def)
  have n: "None \<in> set (take 4 [Some ''b'', None, Some ''3320'', Some ''ONLINE'', Some ''1''])"
    by (simp add: numeral_eq_Suc)
  have l: "\<forall>x\<in>set rows_null. length x = 5" by (simp add: rows_null_def)
  from fetch_null_field_rejected[OF find_session_null reply_session_null r n, of False "[]"] l
  have "\<exists>msg sm lg.
      fetch_group_replication_members True session_null False [] =
        (Inl (metadata_error msg), sm,
         session_null\<lparr>issued := issued session_null @ [kPrimaryMemberQuery, kMembersQuery]\<rparr>, lg) \<and>
      msg = ''Unexpected value in group_replication_metadata query results''"
    by blast
  with find_session_null reply_session_null r n show ?thesis by blast
qed

subsection \<open>Member states\<close>

text \<open>
  Claim C3. A membership row whose state string is not exactly ONLINE, OFFLINE,
  UNREACHABLE or RECOVERING (compared case-sensitively) is not rejected: its member is
  accepted with state Other, and the unknown state is logged. The four recognised
  strings give Online, Offline, Unreachable and Recovering. So when every row has five
  fields and no null among the first four, the call returns a map that holds a member
  for every row, the state of each member follows from the state string of its (last)
  row, and the log gains one line for each row with an unknown state and no other.
\<close>

theorem fetch_member_states:
  assumes f: "find_group_replication_primary_member ndebug conn = (conn1, Inr primary)"
    and s: "server conn (issued conn @ [kPrimaryMemberQuery]) kMembersQuery = Reply_rows rows"
    and ok: "\<forall>r\<in>set rows. row_ok r"
  shows "\<exists>ms sm.
           fetch_group_replication_members ndebug conn sm0 lg0 =
             (Inr ms, sm,
              conn\<lparr>issued := issued conn @ [kPrimaryMemberQuery, kMembersQuery]\<rparr>,
              lg0 @ map (\<lambda>r. log_info ''Unknown state %s in replication_group_members table for %s''
                                [the (r ! 3), the (r ! 0)])
                      (filter (\<lambda>r. the (r ! 3) \<notin> known_states) rows)) \<and>
           (\<forall>r\<in>set rows. \<exists>m. ms (the (r ! 0)) = Some m) \<and>
           (\<forall>k m. ms k = Some m \<longrightarrow>
              rows_of_member k rows \<noteq> [] \<and>
              (let st = the (last (rows_of_member k rows) ! 3) in
                 (st = ''ONLINE'' \<longrightarrow> state m = Online) \<and>
                 (st = ''OFFLINE'' \<longrightarrow> state m = Offline) \<and>
                 (st = ''UNREACHABLE'' \<longrightarrow> state m = Unreachable) \<and>
                 (st = ''RECOVERING'' \<longrightarrow> state m = Recovering) \<and>
                 (st \<notin> known_states \<longrightarrow> state m = Other)))"
proof -
  let ?v0 = "\<lparr> members = Map.empty, single_master = sm0, logged = lg0 \<rparr>"
  from run_ok[OF ok, of primary ?v0] obtain v where
    run: "run_processor (members_processor primary) rows ?v0 = (v, Inr ())"
    and lg: "logged v = lg0 @ concat (map row_log rows)"
    and ms: "\<forall>k. members v k = (if rows_of_member k rows = [] then None
                    else Some (row_member primary (last (rows_of_member k rows))))"
    by auto
  have fetch: "fetch_group_replication_members ndebug conn sm0 lg0 =
          (Inr (members v), single_master v,
           conn\<lparr>issued := issued conn @ [kPrimaryMemberQuery, kMembersQuery]\<rparr>, logged v)"
    using fetch_unfold[OF f s run] by simp
  have present: "\<exists>m. members v (the (r ! 0)) = Some m" if "r \<in> set rows" for r
  proof -
    from that ok have "r ! 0 = Some (the (r ! 0))" by (auto simp: row_ok_def)
    with that have "r \<in> set (rows_of_member (the (r ! 0)) rows)"
      by (simp add: rows_of_member_def)
    then have "rows_of_member (the (r ! 0)) rows \<noteq> []" by auto
    with ms show ?thesis by simp
  qed
  have states: "rows_of_member k rows \<noteq> [] \<and>
              (let st = the (last (rows_of_member k rows) ! 3) in
                 (st = ''ONLINE'' \<longrightarrow> state m = Online) \<and>
                 (st = ''OFFLINE'' \<longrightarrow> state m = Offline) \<and>
                 (st = ''UNREACHABLE'' \<longrightarrow> state m = Unreachable) \<and>
                 (st = ''RECOVERING'' \<longrightarrow> state m = Recovering) \<and>
                 (st \<notin> known_states \<longrightarrow> state m = Other))"
    if "members v k = Some m" for k m
  proof -
    from that ms have ne: "rows_of_member k rows \<noteq> []"
      and m: "m = row_member primary (last (rows_of_member k rows))"
      by (auto split: if_splits)
    have "state m = member_state_of (the (last (rows_of_member k rows) ! 3))"
      using m by (simp add: row_member_def)
    with ne show ?thesis
      by (simp add: Let_def member_state_of_def known_states_def)
  qed
  show ?thesis
    unfolding fetch lg concat_row_log using present states by blast
qed

theorem fetch_member_states_witness:
  "find_group_replication_primary_member True session_pm =
     (session_pm\<lparr>issued := issued session_pm @ [kPrimaryMemberQuery]\<rparr>, Inr ''a'') \<and>
   server session_pm (issued session_pm @ [kPrimaryMemberQuery]) kMembersQuery = Reply_rows rows_pm \<and>
   row_ok (rows_pm ! 0) \<and> row_ok (rows_pm ! 1) \<and> length rows_pm = 2 \<and>
   rows_pm ! 1 ! 3 = Some ''ERROR'' \<and> ''ERROR'' \<notin> known_states \<and>
   ''online'' \<notin> known_states \<and>
   (\<exists>ms sm m.
      fetch_group_replication_members True session_pm False [] =
        (Inr ms, sm,
         session_pm\<lparr>issued := issued session_pm @ [kPrimaryMemberQuery, kMembersQuery]\<rparr>,
         [log_info ''Unknown state %s in replication_group_members table for %s''
            [''ERROR'', ''b'']]) \<and>
      ms ''b'' = Some m \<and> state m = Other)"
proof -
  have ok: "\<forall>r\<in>set rows_pm. row_ok r" by (simp add: rows_pm_def row_ok_def)
  have facts: "row_ok (rows_pm ! 0) \<and> row_ok (rows_pm ! 1) \<and> length rows_pm = 2 \<and>
      rows_pm ! 1 ! 3 = Some ''ERROR'' \<and> ''ERROR'' \<notin> known_states \<and>
      ''online'' \<notin> known_states"
    by (simp add: rows_pm_def row_ok_def known_states_def)
  have lg: "map (\<lambda>r. log_info ''Unknown state %s in replication_group_members table for %s''
                        [the (r ! 3), the (r ! 0)])
              (filter (\<lambda>r. the (r ! 3) \<notin> known_states) rows_pm) =
            [log_info ''Unknown state %s in replication_group_members table for %s''
               [''ERROR'', ''b'']]"
    by (simp add: rows_pm_def known_states_def)
  have lastb: "the (last (rows_of_member ''b'' rows_pm) ! 3) = ''ERROR''"
    by (simp add: rows_pm_def rows_of_member_def)
  from fetch_member_states[OF find_session_pm reply_session_pm ok, of False "[]"]
  obtain ms sm where
    e: "fetch_group_replication_members True session_pm False [] =
          (Inr ms, sm,
           session_pm\<lparr>issued := issued session_pm @ [kPrimaryMemberQuery, kMembersQuery]\<rparr>,
           [log_info ''Unknown state %s in replication_group_members table for %s''
              [''ERROR'', ''b'']])"
    and present: "\<forall>r\<in>set rows_pm. \<exists>m. ms (the (r ! 0)) = Some m"
    and st: "\<forall>k m. ms k = Some m \<longrightarrow>
              rows_of_member k rows_pm \<noteq> [] \<and>
              (let st = the (last (rows_of_member k rows_pm) ! 3) in
                 (st = ''ONLINE'' \<longrightarrow> state m = Online) \<and>
                 (st = ''OFFLINE'' \<longrightarrow> state m = Offline) \<and>
                 (st = ''UNREACHABLE'' \<longrightarrow> state m = Unreachable) \<and>
                 (st = ''RECOVERING'' \<longrightarrow> state m = Recovering) \<and>
                 (st \<notin> known_states \<longrightarrow> state m = Other))"
    unfolding lg by auto
  from present obtain m where m: "ms ''b'' = Some m" by (auto simp: rows_pm_def)
  with st lastb have "state m = Other" by (simp add: Let_def known_states_def)
  with e m have "\<exists>ms sm m.
      fetch_group_replication_members True session_pm False [] =
        (Inr ms, sm,
         session_pm\<lparr>issued := issued session_pm @ [kPrimaryMemberQuery, kMembersQuery]\<rparr>,
         [log_info ''Unknown state %s in replication_group_members table for %s''
            [''ERROR'', ''b'']]) \<and>
      ms ''b'' = Some m \<and> state m = Other"
    by blast
  with find_session_pm reply_session_pm facts show ?thesis by blast
qed

subsection \<open>Order of the two statements\<close>

text \<open>
  Claim C4. On every call of \<open>fetch_group_replication_members\<close> the status query for
  the primary member completes before the membership query is issued, and the primary
  id that decides the roles is the one that earlier query captured; the two are never
  reordered. A call sends the status query first. It sends nothing else when that
  lookup fails. Otherwise the status query was answered with rows, the membership
  query is the second and last statement, and in a returned map every role is computed
  with the value taken from the status query's answer.
\<close>

theorem fetch_query_order:
  assumes r: "fetch_group_replication_members ndebug conn sm0 lg0 = (res, sm, conn2, lg)"
  shows "server conn2 = server conn \<and>
         (issued conn2 = issued conn @ [kPrimaryMemberQuery] \<or>
          issued conn2 = issued conn @ [kPrimaryMemberQuery, kMembersQuery]) \<and>
         (issued conn2 = issued conn @ [kPrimaryMemberQuery] \<longrightarrow>
            (\<exists>e. res = Inl e \<and>
                 find_group_replication_primary_member ndebug conn =
                   (conn\<lparr>issued := issued conn @ [kPrimaryMemberQuery]\<rparr>, Inl e))) \<and>
         (issued conn2 = issued conn @ [kPrimaryMemberQuery, kMembersQuery] \<longrightarrow>
            (\<exists>rs. server conn (issued conn) kPrimaryMemberQuery = Reply_rows rs \<and>
                  find_group_replication_primary_member ndebug conn =
                    (conn\<lparr>issued := issued conn @ [kPrimaryMemberQuery]\<rparr>, Inr (first_value rs)) \<and>
                  (\<forall>ms. res = Inr ms \<longrightarrow>
                     (\<exists>rows. server conn (issued conn @ [kPrimaryMemberQuery]) kMembersQuery
                                = Reply_rows rows \<and>
                             (\<forall>k m. ms k = Some m \<longrightarrow>
                                role m =
                                  (if first_value rs = k \<or>
                                      \<not> single_primary_flag (last (rows_of_member k rows) ! 4)
                                   then Primary else Secondary))))))"
proof -
  obtain conn1 pr where f: "find_group_replication_primary_member ndebug conn = (conn1, pr)"
    by (cases "find_group_replication_primary_member ndebug conn") auto
  have c1: "conn1 = conn\<lparr>issued := issued conn @ [kPrimaryMemberQuery]\<rparr>"
    using find_primary_session[OF f] .
  show ?thesis
  proof (cases pr)
    case (Inl e)
    from fetch_primary_failed[OF f[unfolded Inl], of sm0 lg0] r f c1 Inl
    show ?thesis by auto
  next
    case (Inr p)
    note f' = f[unfolded Inr]
    from find_primary_value[OF f'] obtain rs where
      rs: "server conn (issued conn) kPrimaryMemberQuery = Reply_rows rs"
      and p: "p = first_value rs"
      by blast
    show ?thesis
    proof (cases "server conn (issued conn @ [kPrimaryMemberQuery]) kMembersQuery")
      case (Reply_error msg code)
      from fetch_members_query_failed[OF f' Reply_error, of sm0 lg0] r f' c1 rs p
      show ?thesis by auto
    next
      case (Reply_rows rows)
      let ?v0 = "\<lparr> members = Map.empty, single_master = sm0, logged = lg0 \<rparr>"
      obtain v rr where run: "run_processor (members_processor p) rows ?v0 = (v, rr)"
        by (cases "run_processor (members_processor p) rows ?v0") auto
      note u = fetch_unfold[OF f' Reply_rows run]
      have roles: "role m = (if first_value rs = k \<or>
                                \<not> single_primary_flag (last (rows_of_member k rows) ! 4)
                             then Primary else Secondary)"
        if "res = Inr ms" "ms k = Some m" for ms k m
      proof -
        from that(1) r
        have rr': "fetch_group_replication_members ndebug conn sm0 lg0 = (Inr ms, sm, conn2, lg)"
          by simp
        from fetch_success[OF f' Reply_rows rr'] that(2)
        have ne: "rows_of_member k rows \<noteq> []"
          and mm: "m = row_member p (last (rows_of_member k rows))"
          by (auto split: if_splits)
        have "last (rows_of_member k rows) \<in> set (rows_of_member k rows)" using ne by simp
        then have "last (rows_of_member k rows) ! 0 = Some k"
          by (simp add: rows_of_member_def)
        with mm p show ?thesis by (simp add: row_member_def)
      qed
      have a: "server conn2 = server conn"
        and b: "issued conn2 = issued conn @ [kPrimaryMemberQuery, kMembersQuery]"
        using u r by auto
      have c: "find_group_replication_primary_member ndebug conn =
                 (conn\<lparr>issued := issued conn @ [kPrimaryMemberQuery]\<rparr>, Inr (first_value rs))"
        using f' c1 p by simp
      have d: "\<forall>ms. res = Inr ms \<longrightarrow>
                     (\<exists>rows. server conn (issued conn @ [kPrimaryMemberQuery]) kMembersQuery
                                = Reply_rows rows \<and>
                             (\<forall>k m. ms k = Some m \<longrightarrow>
                                role m =
                                  (if first_value rs = k \<or>
                                      \<not> single_primary_flag (last (rows_of_member k rows) ! 4)
                                   then Primary else Secondary)))"
        using Reply_rows roles by blast
      have e: "issued conn2 \<noteq> issued conn @ [kPrimaryMemberQuery]" using b by simp
      from a b c d e rs show ?thesis by blast
    qed
  qed
qed

theorem fetch_query_order_witness:
  "fetch_group_replication_members True session_pm False [] =
     (Inr members_pm, True,
      session_pm\<lparr>issued := issued session_pm @ [kPrimaryMemberQuery, kMembersQuery]\<rparr>,
      [log_info ''Unknown state %s in replication_group_members table for %s'' [''ERROR'', ''b'']]) \<and>
   issued (session_pm\<lparr>issued := issued session_pm @ [kPrimaryMemberQuery, kMembersQuery]\<rparr>) =
     issued session_pm @ [kPrimaryMemberQuery, kMembersQuery] \<and>
   (\<exists>rs. server session_pm (issued session_pm) kPrimaryMemberQuery = Reply_rows rs \<and>
         find_group_replication_primary_member True session_pm =
           (session_pm\<lparr>issued := issued session_pm @ [kPrimaryMemberQuery]\<rparr>, Inr (first_value rs)))"
proof -
  have i: "issued (session_pm\<lparr>issued := issued session_pm @ [kPrimaryMemberQuery, kMembersQuery]\<rparr>) =
     issued session_pm @ [kPrimaryMemberQuery, kMembersQuery]"
    by simp
  from fetch_query_order[OF fetch_session_pm] i
  have "\<exists>rs. server session_pm (issued session_pm) kPrimaryMemberQuery = Reply_rows rs \<and>
         find_group_replication_primary_member True session_pm =
           (session_pm\<lparr>issued := issued session_pm @ [kPrimaryMemberQuery]\<rparr>, Inr (first_value rs))"
    by blast
  with fetch_session_pm i show ?thesis by blast
qed

subsection \<open>The single-primary flag\<close>

lemma find_session_mixed:
  "find_group_replication_primary_member True session_mixed =
     (session_mixed\<lparr>issued := issued session_mixed @ [kPrimaryMemberQuery]\<rparr>, Inr ''a'')"
  by (simp add: session_mixed_def replayer_def find_group_replication_primary_member_def
      query_def primary_member_processor_def)

lemma reply_session_mixed:
  "server session_mixed (issued session_mixed @ [kPrimaryMemberQuery]) kMembersQuery
     = Reply_rows rows_mixed"
  by (simp add: session_mixed_def replayer_def)

lemma fetch_session_mixed:
  "fetch_group_replication_members True session_mixed True [] =
     (Inr members_mixed, False,
      session_mixed\<lparr>issued := issued session_mixed @ [kPrimaryMemberQuery, kMembersQuery]\<rparr>,
      [])"
  unfolding fetch_group_replication_members_def find_session_mixed
  by (simp add: query_def reply_session_mixed rows_mixed_def members_processor_def
      single_primary_flag_def member_state_of_def members_mixed_def port_3310 port_3320)

text \<open>
  Claim C10, as it stands, ends with: a row with a null flag makes every member's role
  Primary. In the result set \<open>rows_mixed\<close> the second row has a null flag, the call
  succeeds and reports \<open>single_master = false\<close>, and yet the member of the first
  row, which was read under the flag "ON", is Secondary.
\<close>

theorem fetch_null_flag_counterexample:
  "rows_mixed ! 1 ! 4 = None \<and>
   server session_mixed (issued session_mixed @ [kPrimaryMemberQuery]) kMembersQuery
     = Reply_rows rows_mixed \<and>
   fetch_group_replication_members True session_mixed True [] =
     (Inr members_mixed, False,
      session_mixed\<lparr>issued := issued session_mixed @ [kPrimaryMemberQuery, kMembersQuery]\<rparr>,
      []) \<and>
   map_option role (members_mixed ''b'') = Some Secondary"
  using reply_session_mixed fetch_session_mixed
  by (simp add: rows_mixed_def members_mixed_def)

text \<open>
  Claim C10, amended. A fifth field that is null, or any string other than "1" and
  "ON", counts as false and raises no error: the call returns a map exactly when every
  row has five fields and a non-null id, host, port and state. The \<open>single_master\<close>
  that the call leaves behind is the flag of the last row whose fifth field was read
  (the caller's value when there is none). A false flag makes the member of its own row
  Primary; a member is Secondary exactly when the flag of its own (last) row is true
  and its id is not the primary id, whatever the flags of the other rows are.
\<close>

theorem fetch_flag_per_row:
  assumes f: "find_group_replication_primary_member ndebug conn = (conn1, Inr primary)"
    and s: "server conn (issued conn @ [kPrimaryMemberQuery]) kMembersQuery = Reply_rows rows"
    and r: "fetch_group_replication_members ndebug conn sm0 lg0 = (res, sm, conn2, lg)"
  shows "\<not> single_primary_flag None \<and>
         (\<forall>x. single_primary_flag (Some x) \<longleftrightarrow> x = ''1'' \<or> x = ''ON'') \<and>
         ((\<exists>ms. res = Inr ms) \<longleftrightarrow> (\<forall>x\<in>set rows. row_ok x)) \<and>
         sm = (let rs = filter (\<lambda>r. length r = 5) (processed_rows rows)
               in if rs = [] then sm0 else single_primary_flag (last rs ! 4)) \<and>
         ((\<forall>x\<in>set rows. row_ok x) \<and> rows \<noteq> [] \<longrightarrow> sm = single_primary_flag (last rows ! 4)) \<and>
         (\<forall>ms k m. res = Inr ms \<and> ms k = Some m \<and>
                    \<not> single_primary_flag (last (rows_of_member k rows) ! 4)
                    \<longrightarrow> role m = Primary) \<and>
         (\<forall>ms k m. res = Inr ms \<and> ms k = Some m \<longrightarrow>
                    (role m = Secondary \<longleftrightarrow>
                       single_primary_flag (last (rows_of_member k rows) ! 4) \<and> k \<noteq> primary))"
proof -
  let ?v0 = "\<lparr> members = Map.empty, single_master = sm0, logged = lg0 \<rparr>"
  obtain v rr where run: "run_processor (members_processor primary) rows ?v0 = (v, rr)"
    by (cases "run_processor (members_processor primary) rows ?v0") auto
  note u = fetch_unfold[OF f s run]
  have flag: "\<not> single_primary_flag None \<and>
         (\<forall>x. single_primary_flag (Some x) \<longleftrightarrow> x = ''1'' \<or> x = ''ON'')"
    by (simp add: single_primary_flag_def)
  have res: "res = (case rr of Inl e \<Rightarrow> Inl e | Inr u \<Rightarrow> Inr (members v))"
    and sm: "sm = single_master v"
    using u r by auto
  have okiff: "(\<exists>ms. res = Inr ms) \<longleftrightarrow> (\<forall>x\<in>set rows. row_ok x)"
  proof (cases "\<forall>x\<in>set rows. row_ok x")
    case True
    from run_ok[OF True, of primary ?v0] run res True show ?thesis by auto
  next
    case False
    then obtain x where "x \<in> set rows" "\<not> row_ok x" by blast
    from run_bad[OF this, of primary ?v0] run res False show ?thesis by auto
  qed
  have smval: "sm = (let rs = filter (\<lambda>r. length r = 5) (processed_rows rows)
               in if rs = [] then sm0 else single_primary_flag (last rs ! 4))"
    using run_single_master[OF run] sm by simp
  have smlast: "sm = single_primary_flag (last rows ! 4)"
    if "\<forall>x\<in>set rows. row_ok x" "rows \<noteq> []"
    using run_ok[OF that(1), of primary ?v0] run sm that(2) by auto
  have roles: "role m = Secondary \<longleftrightarrow>
                 single_primary_flag (last (rows_of_member k rows) ! 4) \<and> k \<noteq> primary"
    if "res = Inr ms" "ms k = Some m" for ms k m
  proof -
    from that(1) r
    have rr': "fetch_group_replication_members ndebug conn sm0 lg0 = (Inr ms, sm, conn2, lg)"
      by simp
    from fetch_success[OF f s rr'] that(2)
    have ne: "rows_of_member k rows \<noteq> []"
      and mm: "m = row_member primary (last (rows_of_member k rows))"
      by (auto split: if_splits)
    have "last (rows_of_member k rows) \<in> set (rows_of_member k rows)" using ne by simp
    then have "last (rows_of_member k rows) ! 0 = Some k"
      by (simp add: rows_of_member_def)
    with mm show ?thesis by (auto simp: row_member_def)
  qed
  have prim: "role m = Primary"
    if "res = Inr ms" "ms k = Some m" "\<not> single_primary_flag (last (rows_of_member k rows) ! 4)"
    for ms k m
    using roles[OF that(1,2)] that(3) by (cases "role m") auto
  from flag okiff smval smlast roles prim show ?thesis by blast
qed

theorem fetch_flag_per_row_witness:
  "find_group_replication_primary_member True session_mixed =
     (session_mixed\<lparr>issued := issued session_mixed @ [kPrimaryMemberQuery]\<rparr>, Inr ''a'') \<and>
   server session_mixed (issued session_mixed @ [kPrimaryMemberQuery]) kMembersQuery
     = Reply_rows rows_mixed \<and>
   fetch_group_replication_members True session_mixed True [] =
     (Inr members_mixed, False,
      session_mixed\<lparr>issued := issued session_mixed @ [kPrimaryMemberQuery, kMembersQuery]\<rparr>,
      []) \<and>
   last (rows_of_member ''c'' rows_mixed) ! 4 = None \<and>
   map_option role (members_mixed ''c'') = Some Primary \<and>
   row_ok (rows_mixed ! 0) \<and> row_ok (rows_mixed ! 1) \<and>
   \<not> single_primary_flag (last rows_mixed ! 4)"
proof -
  have ok: "\<forall>x\<in>set rows_mixed. row_ok x" and ne: "rows_mixed \<noteq> []"
    by (simp_all add: rows_mixed_def row_ok_def)
  have facts: "last (rows_of_member ''c'' rows_mixed) ! 4 = None \<and>
      map_option role (members_mixed ''c'') = Some Primary \<and>
      row_ok (rows_mixed ! 0) \<and> row_ok (rows_mixed ! 1)"
    by (simp add: rows_mixed_def rows_of_member_def members_mixed_def row_ok_def)
  from fetch_flag_per_row[OF find_session_mixed reply_session_mixed fetch_session_mixed] ok ne
  have "\<not> single_primary_flag (last rows_mixed ! 4)" by blast
  with find_session_mixed reply_session_mixed fetch_session_mixed facts
  show ?thesis by blast
qed

section \<open>Properties of the bootstrap options and the account provisioner\<close>

subsection \<open>Base port\<close>

text \<open>
  Claim C5. \<open>fill_options\<close> derives the four endpoint ports from base-port by the
  fixed offsets +0, +1, +2 and +3, and refuses every base-port whose derived ports
  would exceed 65535 with an error that contains "Invalid base-port number". In
  particular base-port 65533 is refused, while base-port 65532 succeeds and gives the
  ports 65532, 65533, 65534 and 65535.
\<close>

theorem fill_options_base_port:
  "(fill_options mm [''base-port'' \<mapsto> v] = Inr opts \<longrightarrow>
      (\<exists>b. parse_decimal v = Some b \<and> 1 \<le> b \<and> b + 3 \<le> 65535 \<and>
           endpoint_port (rw_endpoint opts) = b + 0 \<and>
           endpoint_port (ro_endpoint opts) = b + 1 \<and>
           endpoint_port (rw_x_endpoint opts) = b + 2 \<and>
           endpoint_port (ro_x_endpoint opts) = b + 3)) \<and>
   (parse_decimal v = Some b \<and> 65535 < b + 3 \<longrightarrow>
      (\<exists>msg. fill_options mm [''base-port'' \<mapsto> v] = Inl (runtime_error msg) \<and>
             sublist ''Invalid base-port number'' msg)) \<and>
   (\<exists>msg. fill_options mm [''base-port'' \<mapsto> ''65533''] = Inl (runtime_error msg) \<and>
          sublist ''Invalid base-port number'' msg) \<and>
   (\<exists>os. fill_options mm [''base-port'' \<mapsto> ''65532''] = Inr os \<and>
         endpoint_port (rw_endpoint os) = 65532 \<and>
         endpoint_port (ro_endpoint os) = 65533 \<and>
         endpoint_port (rw_x_endpoint os) = 65534 \<and>
         endpoint_port (ro_x_endpoint os) = 65535)"
proof -
  have msg: "sublist ''Invalid base-port number'' ''Invalid base-port number''"
    by simp
  have a: "fill_options mm [''base-port'' \<mapsto> v] = Inr opts \<longrightarrow>
      (\<exists>b. parse_decimal v = Some b \<and> 1 \<le> b \<and> b + 3 \<le> 65535 \<and>
           endpoint_port (rw_endpoint opts) = b + 0 \<and>
           endpoint_port (ro_endpoint opts) = b + 1 \<and>
           endpoint_port (rw_x_endpoint opts) = b + 2 \<and>
           endpoint_port (ro_x_endpoint opts) = b + 3)"
    by (auto simp: fill_options_def kMaxTCPPortNumber_def split: option.splits if_splits)
  have b: "parse_decimal v = Some b \<and> 65535 < b + 3 \<longrightarrow>
      (\<exists>msg. fill_options mm [''base-port'' \<mapsto> v] = Inl (runtime_error msg) \<and>
             sublist ''Invalid base-port number'' msg)"
    using msg by (auto simp: fill_options_def kMaxTCPPortNumber_def)
  have p3: "parse_decimal ''65533'' = Some 65533"
    and p2: "parse_decimal ''65532'' = Some 65532"
    by (simp_all add: parse_decimal_def isdigit_def)
  have c: "\<exists>msg. fill_options mm [''base-port'' \<mapsto> ''65533''] = Inl (runtime_error msg) \<and>
          sublist ''Invalid base-port number'' msg"
    using msg by (simp add: fill_options_def kMaxTCPPortNumber_def p3)
  have d: "\<exists>os. fill_options mm [''base-port'' \<mapsto> ''65532''] = Inr os \<and>
         endpoint_port (rw_endpoint os) = 65532 \<and>
         endpoint_port (ro_endpoint os) = 65533 \<and>
         endpoint_port (rw_x_endpoint os) = 65534 \<and>
         endpoint_port (ro_x_endpoint os) = 65535"
    by (simp add: fill_options_def kMaxTCPPortNumber_def p2)
  from a b c d show ?thesis by blast
qed

theorem fill_options_base_port_witness:
  "parse_decimal ''65536'' = Some 65536 \<and> (65535 :: nat) < 65536 + 3 \<and>
   (\<exists>msg. fill_options False [''base-port'' \<mapsto> ''65536''] = Inl (runtime_error msg) \<and>
          sublist ''Invalid base-port number'' msg) \<and>
   fill_options False [''base-port'' \<mapsto> ''1234''] =
     Inr \<lparr> multi_master = False,
           rw_endpoint = \<lparr> enabled = True, endpoint_port = 1234 \<rparr>,
           ro_endpoint = \<lparr> enabled = True, endpoint_port = 1235 \<rparr>,
           rw_x_endpoint = \<lparr> enabled = True, endpoint_port = 1236 \<rparr>,
           ro_x_endpoint = \<lparr> enabled = True, endpoint_port = 1237 \<rparr> \<rparr> \<and>
   parse_decimal ''1234'' = Some 1234"
proof -
  have p: "parse_decimal ''65536'' = Some 65536" "parse_decimal ''1234'' = Some 1234"
    by (simp_all add: parse_decimal_def isdigit_def)
  have f: "fill_options False [''base-port'' \<mapsto> ''1234''] =
     Inr \<lparr> multi_master = False,
           rw_endpoint = \<lparr> enabled = True, endpoint_port = 1234 \<rparr>,
           ro_endpoint = \<lparr> enabled = True, endpoint_port = 1235 \<rparr>,
           rw_x_endpoint = \<lparr> enabled = True, endpoint_port = 1236 \<rparr>,
           ro_x_endpoint = \<lparr> enabled = True, endpoint_port = 1237 \<rparr> \<rparr>"
    by (simp add: fill_options_def kMaxTCPPortNumber_def p)
  from fill_options_base_port[of False "''65536''" _ 65536] p
  have "\<exists>msg. fill_options False [''base-port'' \<mapsto> ''65536''] = Inl (runtime_error msg) \<and>
          sublist ''Invalid base-port number'' msg"
    by simp
  with p f show ?thesis by simp
qed

subsection \<open>Password retries\<close>

lemma get_password_retries_range:
  "get_password_retries user_options = Inr n \<Longrightarrow> 1 \<le> n \<and> n \<le> 10000"
  by (auto simp: get_password_retries_def kDefaultPasswordRetries_def kMaxPasswordRetries_def
      split: option.splits if_splits)

text \<open>
  Claim C6. For every password-retries value that is not a decimal integer in the range
  1 to 10000 (in particular "0", "999999", "foo" and the empty string) the bootstrap
  fails with a runtime error whose message names the value: Invalid password-retries
  value '<value>'; please pick a value from 1 to 10000.
\<close>

theorem password_retries_rejected:
  assumes v: "user_options ''password-retries'' = Some v"
    and bad: "\<not> (\<exists>n. parse_decimal v = Some n \<and> 1 \<le> n \<and> n \<le> 10000)"
  shows "provision_account user_options hash passwords s =
           (s, Inl (runtime_error
                  (''Invalid password-retries value '' @ [CHR 0x27] @ v @ [CHR 0x27]
                   @ ''; please pick a value from 1 to 10000'')))"
proof -
  have "get_password_retries user_options = Inl (runtime_error (password_retries_message v))"
    using v bad
    by (auto simp: get_password_retries_def kMaxPasswordRetries_def split: option.splits)
  then show ?thesis
    by (simp add: provision_account_def password_retries_message_def)
qed

theorem password_retries_rejected_witness:
  "provision_account [''password-retries'' \<mapsto> ''0''] id (\<lambda>i. ''secret'') (replay_db []) =
     (replay_db [],
      Inl (runtime_error (''Invalid password-retries value '' @ [CHR 0x27] @ ''0'' @ [CHR 0x27]
                          @ ''; please pick a value from 1 to 10000''))) \<and>
   provision_account [''password-retries'' \<mapsto> ''999999''] id (\<lambda>i. ''secret'') (replay_db []) =
     (replay_db [],
      Inl (runtime_error (''Invalid password-retries value '' @ [CHR 0x27] @ ''999999'' @ [CHR 0x27]
                          @ ''; please pick a value from 1 to 10000''))) \<and>
   provision_account [''password-retries'' \<mapsto> ''foo''] id (\<lambda>i. ''secret'') (replay_db []) =
     (replay_db [],
      Inl (runtime_error (''Invalid password-retries value '' @ [CHR 0x27] @ ''foo'' @ [CHR 0x27]
                          @ ''; please pick a value from 1 to 10000''))) \<and>
   provision_account [''password-retries'' \<mapsto> ''''] id (\<lambda>i. ''secret'') (replay_db []) =
     (replay_db [],
      Inl (runtime_error (''Invalid password-retries value '' @ [CHR 0x27] @ '''' @ [CHR 0x27]
                          @ ''; please pick a value from 1 to 10000''))) \<and>
   parse_decimal ''0'' = Some 0 \<and> parse_decimal ''999999'' = Some 999999 \<and>
   parse_decimal ''foo'' = None \<and> parse_decimal '''' = None"
proof -
  have p: "parse_decimal ''0'' = Some 0" "parse_decimal ''999999'' = Some 999999"
    "parse_decimal ''foo'' = None" "parse_decimal '''' = None"
    by (simp_all add: parse_decimal_def isdigit_def)
  have b: "\<not> (\<exists>n. parse_decimal ''0'' = Some n \<and> 1 \<le> n \<and> n \<le> 10000)"
    "\<not> (\<exists>n. parse_decimal ''999999'' = Some n \<and> 1 \<le> n \<and> n \<le> 10000)"
    "\<not> (\<exists>n. parse_decimal ''foo'' = Some n \<and> 1 \<le> n \<and> n \<le> 10000)"
    "\<not> (\<exists>n. parse_decimal '''' = Some n \<and> 1 \<le> n \<and> n \<le> 10000)"
    by (simp_all add: p)
  show ?thesis
    using password_retries_rejected[of "[''password-retries'' \<mapsto> ''0'']" "''0''", OF _ b(1)]
      password_retries_rejected[of "[''password-retries'' \<mapsto> ''999999'']" "''999999''", OF _ b(2)]
      password_retries_rejected[of "[''password-retries'' \<mapsto> ''foo'']" "''foo''", OF _ b(3)]
      password_retries_rejected[of "[''password-retries'' \<mapsto> '''']" "''''", OF _ b(4)]
      p
    by simp
qed

subsection \<open>A server without the hash plugin\<close>

lemma create_user_plain_session:
  "create_user_plain passwords n i s = (s', r) \<Longrightarrow>
   db_server s' = db_server s \<and> prefix (db_issued s) (db_issued s')"
proof (induction n arbitrary: i s s' r)
  case 0
  then show ?case by simp
next
  case (Suc n)
  show ?case
  proof (cases "db_server s (db_issued s) (CREATE_USER_PLAIN (passwords i))")
    case Exec_ok
    with Suc.prems show ?thesis by (auto simp: execute_def)
  next
    case (Exec_count c)
    with Suc.prems show ?thesis by (auto simp: execute_def)
  next
    case (Exec_error msg code)
    let ?h2 = "db_issued s @ [CREATE_USER_PLAIN (passwords i), ROLLBACK]"
    let ?s3 = "s\<lparr>db_issued := ?h2 @ [START_TRANSACTION]\<rparr>"
    show ?thesis
    proof (cases "code = kPasswordPolicy \<and> n \<noteq> 0 \<and>
        (\<forall>m c. db_server s ?h2 START_TRANSACTION \<noteq> Exec_error m c)")
      case True
      then have rec: "create_user_plain passwords n (Suc i) ?s3 = (s', r)"
        using Suc.prems Exec_error
        by (auto simp: execute_def split: exec_reply.splits)
      from Suc.IH[OF rec]
      have "db_server s' = db_server s" and "prefix (?h2 @ [START_TRANSACTION]) (db_issued s')"
        by simp_all
      then show ?thesis by (auto dest: append_prefixD)
    next
      case False
      with Suc.prems Exec_error show ?thesis
        by (auto simp: execute_def split: exec_reply.splits if_splits)
    qed
  qed
qed

lemma create_user_plain_first:
  assumes "create_user_plain passwords (Suc n) i s = (s', r)"
  shows "prefix (db_issued s @ [CREATE_USER_PLAIN (passwords i)]) (db_issued s')"
proof (cases "db_server s (db_issued s) (CREATE_USER_PLAIN (passwords i))")
  case Exec_ok
  with assms show ?thesis by (auto simp: execute_def)
next
  case (Exec_count c)
  with assms show ?thesis by (auto simp: execute_def)
next
  case (Exec_error msg code)
  let ?h2 = "db_issued s @ [CREATE_USER_PLAIN (passwords i), ROLLBACK]"
  let ?s3 = "s\<lparr>db_issued := ?h2 @ [START_TRANSACTION]\<rparr>"
  show ?thesis
  proof (cases "code = kPasswordPolicy \<and> n \<noteq> 0 \<and>
      (\<forall>m c. db_server s ?h2 START_TRANSACTION \<noteq> Exec_error m c)")
    case True
    then have rec: "create_user_plain passwords n (Suc i) ?s3 = (s', r)"
      using assms Exec_error
      by (auto simp: execute_def split: exec_reply.splits)
    from create_user_plain_session[OF rec]
    have "prefix (?h2 @ [START_TRANSACTION]) (db_issued s')" by simp
    then have "prefix ((db_issued s @ [CREATE_USER_PLAIN (passwords i)])
                         @ [ROLLBACK, START_TRANSACTION])
                 (db_issued s')" by simp
    then show ?thesis by (rule append_prefixD)
  next
    case False
    with assms Exec_error show ?thesis
      by (auto simp: execute_def split: exec_reply.splits if_splits)
  qed
qed

lemma create_user_plain_accepted:
  assumes "\<forall>m c. db_server s (db_issued s) (CREATE_USER_PLAIN (passwords i)) \<noteq> Exec_error m c"
  shows "create_user_plain passwords (Suc n) i s =
           (s\<lparr>db_issued := db_issued s @ [CREATE_USER_PLAIN (passwords i)]\<rparr>, Inr (passwords i))"
  using assms by (auto simp: execute_def split: exec_reply.splits)

lemma execute_all_session:
  "execute_all sts s = (s', r) \<Longrightarrow>
   db_server s' = db_server s \<and> prefix (db_issued s) (db_issued s')"
proof (induction sts arbitrary: s)
  case Nil
  then show ?case by simp
next
  case (Cons st sts)
  show ?case
  proof (cases "\<exists>m c. db_server s (db_issued s) st = Exec_error m c")
    case True
    with Cons.prems show ?thesis by (auto simp: execute_def)
  next
    case False
    then have "execute_all sts (s\<lparr>db_issued := db_issued s @ [st]\<rparr>) = (s', r)"
      using Cons.prems by (auto simp: execute_def split: exec_reply.splits)
    from Cons.IH[OF this] show ?thesis by (auto dest: append_prefixD)
  qed
qed

lemma accepted_server:
  "db_server s' = db_server s \<Longrightarrow> accepted s' h sts = accepted s h sts"
  by (induction sts arbitrary: h) auto

lemma execute_all_accepted:
  "accepted s (db_issued s) sts \<Longrightarrow>
   execute_all sts s = (s\<lparr>db_issued := db_issued s @ sts\<rparr>, Inr ())"
proof (induction sts arbitrary: s)
  case Nil
  then show ?case by simp
next
  case (Cons st sts)
  let ?s1 = "s\<lparr>db_issued := db_issued s @ [st]\<rparr>"
  from Cons.prems have a0: "accepted s (db_issued s @ [st]) sts"
    and ne: "\<forall>m c. db_server s (db_issued s) st \<noteq> Exec_error m c"
    by (auto split: exec_reply.splits)
  have "accepted ?s1 (db_issued ?s1) sts"
    using a0 accepted_server[of ?s1 s] by simp
  from Cons.IH[OF this] ne show ?case
    by (auto simp: execute_def split: exec_reply.splits)
qed

lemma delete_accounts_session:
  "delete_accounts s = (s', r) \<Longrightarrow>
   db_server s' = db_server s \<and> prefix (db_issued s) (db_issued s')"
  by (auto simp: delete_accounts_def execute_def split: exec_reply.splits if_splits)

text \<open>
  Claim C8. When the server refuses CREATE USER ... IDENTIFIED WITH
  mysql\_native\_password with error code 1524 (plugin not loaded), the provisioner
  issues ROLLBACK and retries with a plain CREATE USER ... IDENTIFIED BY; the error is
  a retryable condition and not a terminal failure, and the run can still complete.
  For any server and any state of the accounts: once the transaction is open and the
  existing accounts are dealt with (\<open>s2\<close>), a hashed CREATE USER that is refused with
  1524 is followed by ROLLBACK and a new START TRANSACTION; if that is accepted the
  plain CREATE USER with the same password comes next; and if the server accepts it and
  the statements after it, the run ends with COMMIT and hands out the password.
\<close>

theorem plugin_not_loaded_retried:
  assumes retries: "get_password_retries user_options = Inr n"
    and hashing: "user_options ''force-password-validation'' = None"
    and start: "execute_all [START_TRANSACTION] s = (s1, Inr ())"
    and del: "delete_accounts s1 = (s2, Inr ())"
    and rej: "db_server s (db_issued s2) (CREATE_USER_HASHED (hash (passwords 0)))
                = Exec_error msg 1524"
  shows "\<exists>s' res.
           provision_account user_options hash passwords s = (s', res) \<and>
           db_server s' = db_server s \<and>
           prefix (db_issued s2 @
                     [CREATE_USER_HASHED (hash (passwords 0)), ROLLBACK, START_TRANSACTION])
                  (db_issued s') \<and>
           (accepted s (db_issued s2 @ [CREATE_USER_HASHED (hash (passwords 0)), ROLLBACK])
                [START_TRANSACTION] \<longrightarrow>
              prefix (db_issued s2 @
                        [CREATE_USER_HASHED (hash (passwords 0)), ROLLBACK, START_TRANSACTION,
                         CREATE_USER_PLAIN (passwords 0)])
                     (db_issued s')) \<and>
           (accepted s (db_issued s2 @ [CREATE_USER_HASHED (hash (passwords 0)), ROLLBACK])
                [START_TRANSACTION, CREATE_USER_PLAIN (passwords 0),
                 GRANT_METADATA, GRANT_GROUP_MEMBERS, GRANT_GROUP_MEMBER_STATS,
                 UPDATE_ROUTER, COMMIT] \<longrightarrow>
              res = Inr (passwords 0) \<and>
              db_issued s' = db_issued s2 @
                [CREATE_USER_HASHED (hash (passwords 0)), ROLLBACK, START_TRANSACTION,
                 CREATE_USER_PLAIN (passwords 0),
                 GRANT_METADATA, GRANT_GROUP_MEMBERS, GRANT_GROUP_MEMBER_STATS,
                 UPDATE_ROUTER, COMMIT])"
proof -
  let ?H = "CREATE_USER_HASHED (hash (passwords 0))"
  let ?P = "CREATE_USER_PLAIN (passwords 0)"
  let ?G = "[GRANT_METADATA, GRANT_GROUP_MEMBERS, GRANT_GROUP_MEMBER_STATS, UPDATE_ROUTER, COMMIT]"
  let ?h2 = "db_issued s2 @ [?H, ROLLBACK]"
  let ?s3 = "s2\<lparr>db_issued := ?h2 @ [START_TRANSACTION]\<rparr>"
  from get_password_retries_range[OF retries] obtain k where n: "n = Suc k"
    by (cases n) auto
  have srv2: "db_server s2 = db_server s"
    using execute_all_session[OF start] delete_accounts_session[OF del] by simp
  have run: "provision_account user_options hash passwords s =
      (case create_account True hash passwords n s2 of
         (s3, Inl e) \<Rightarrow> (s3, Inl e)
       | (s3, Inr password) \<Rightarrow>
           (case execute_all ?G s3 of
              (s4, Inl e) \<Rightarrow> (s4, Inl e)
            | (s4, Inr u) \<Rightarrow> (s4, Inr password)))"
    by (simp add: provision_account_def retries start del hashing del: execute_all.simps)
  show ?thesis
  proof (cases "\<exists>m c. db_server s ?h2 START_TRANSACTION = Exec_error m c")
    case True
    then obtain m c where e: "db_server s ?h2 START_TRANSACTION = Exec_error m c" by blast
    have "create_account True hash passwords n s2 = (?s3, Inl (session_error m c))"
      using rej e srv2 by (simp add: create_account_def execute_def kPluginNotLoaded_def)
    with run have "provision_account user_options hash passwords s = (?s3, Inl (session_error m c))"
      by simp
    with e srv2 show ?thesis by simp
  next
    case False
    have ca: "create_account True hash passwords n s2 = create_user_plain passwords n 0 ?s3"
      using rej False srv2
      by (auto simp: create_account_def execute_def kPluginNotLoaded_def split: exec_reply.splits)
    obtain s4 r4 where cp: "create_user_plain passwords n 0 ?s3 = (s4, r4)"
      by (cases "create_user_plain passwords n 0 ?s3") auto
    have srv4: "db_server s4 = db_server s"
      using create_user_plain_session[OF cp] srv2 by simp
    have pre4: "prefix (?h2 @ [START_TRANSACTION, ?P]) (db_issued s4)"
      using create_user_plain_first[OF cp[unfolded n]] by simp
    obtain s' res where pr: "provision_account user_options hash passwords s = (s', res)"
      by (cases "provision_account user_options hash passwords s") auto
    have s': "db_server s' = db_server s \<and> prefix (db_issued s4) (db_issued s')"
    proof (cases r4)
      case (Inl e)
      with run ca cp pr srv4 show ?thesis by simp
    next
      case (Inr pw)
      obtain s5 r5 where g: "execute_all ?G s4 = (s5, r5)"
        by (cases "execute_all ?G s4") auto
      from run ca cp pr Inr g have "s' = s5" by (cases r5) auto
      with execute_all_session[OF g] srv4 show ?thesis by simp
    qed
    then have pre': "prefix (?h2 @ [START_TRANSACTION, ?P]) (db_issued s')"
      using pre4 by (meson prefix_order.trans)
    then have pre3: "prefix (?h2 @ [START_TRANSACTION]) (db_issued s')"
      using append_prefixD[of "?h2 @ [START_TRANSACTION]" "[?P]" "db_issued s'"] by simp
    have full: "res = Inr (passwords 0) \<and>
                db_issued s' = ?h2 @ [START_TRANSACTION, ?P] @ ?G"
      if a: "accepted s ?h2 (START_TRANSACTION # ?P # ?G)"
    proof -
      from a have p: "\<forall>m c. db_server ?s3 (db_issued ?s3) ?P \<noteq> Exec_error m c"
        using srv2 by (auto split: exec_reply.splits)
      from a have g: "accepted s (?h2 @ [START_TRANSACTION, ?P]) ?G" by simp
      have cp': "create_user_plain passwords n 0 ?s3 =
                   (?s3\<lparr>db_issued := db_issued ?s3 @ [?P]\<rparr>, Inr (passwords 0))"
        unfolding n using create_user_plain_accepted[of ?s3 passwords 0 k] p by blast
      let ?s4 = "?s3\<lparr>db_issued := db_issued ?s3 @ [?P]\<rparr>"
      have "accepted ?s4 (db_issued ?s4) ?G"
        using g accepted_server[of ?s4 s] srv2 by simp
      from execute_all_accepted[OF this] run ca cp' pr show ?thesis by simp
    qed
    from pr s' pre3 pre' full show ?thesis by simp
  qed
qed

theorem plugin_not_loaded_retried_witness:
  "get_password_retries Map.empty = Inr 5 \<and>
   (Map.empty :: string \<rightharpoonup> string) ''force-password-validation'' = None \<and>
   execute_all [START_TRANSACTION] db_no_native_plugin =
     (db_no_native_plugin\<lparr>db_issued := [START_TRANSACTION]\<rparr>, Inr ()) \<and>
   delete_accounts (db_no_native_plugin\<lparr>db_issued := [START_TRANSACTION]\<rparr>) =
     (db_no_native_plugin\<lparr>db_issued := [START_TRANSACTION, COUNT_ACCOUNTS, DROP_ACCOUNTS]\<rparr>,
      Inr ()) \<and>
   db_server db_no_native_plugin [START_TRANSACTION, COUNT_ACCOUNTS, DROP_ACCOUNTS]
     (CREATE_USER_HASHED ''secret'') = Exec_error ''ERROR:'' 1524 \<and>
   accepted db_no_native_plugin
     [START_TRANSACTION, COUNT_ACCOUNTS, DROP_ACCOUNTS, CREATE_USER_HASHED ''secret'', ROLLBACK]
     [START_TRANSACTION, CREATE_USER_PLAIN ''secret'',
      GRANT_METADATA, GRANT_GROUP_MEMBERS, GRANT_GROUP_MEMBER_STATS, UPDATE_ROUTER, COMMIT] \<and>
   (\<exists>s'. provision_account Map.empty id (\<lambda>i. ''secret'') db_no_native_plugin
            = (s', Inr ''secret'') \<and>
         db_issued s' =
           [START_TRANSACTION, COUNT_ACCOUNTS, DROP_ACCOUNTS,
            CREATE_USER_HASHED ''secret'', ROLLBACK, START_TRANSACTION,
            CREATE_USER_PLAIN ''secret'',
            GRANT_METADATA, GRANT_GROUP_MEMBERS, GRANT_GROUP_MEMBER_STATS,
            UPDATE_ROUTER, COMMIT])"
proof -
  let ?s1 = "db_no_native_plugin\<lparr>db_issued := [START_TRANSACTION]\<rparr>"
  let ?s2 = "db_no_native_plugin\<lparr>db_issued := [START_TRANSACTION, COUNT_ACCOUNTS, DROP_ACCOUNTS]\<rparr>"
  have r: "get_password_retries Map.empty = Inr 5"
    by (simp add: get_password_retries_def kDefaultPasswordRetries_def)
  have h: "(Map.empty :: string \<rightharpoonup> string) ''force-password-validation'' = None"
    by simp
  have srv: "db_server db_no_native_plugin h START_TRANSACTION = Exec_ok"
    "db_server db_no_native_plugin h COUNT_ACCOUNTS = Exec_count 1"
    "db_server db_no_native_plugin h DROP_ACCOUNTS = Exec_ok"
    "db_server db_no_native_plugin h (CREATE_USER_HASHED x) = Exec_error ''ERROR:'' 1524"
    "db_server db_no_native_plugin h (CREATE_USER_PLAIN x) = Exec_ok"
    "db_server db_no_native_plugin h GRANT_METADATA = Exec_ok"
    "db_server db_no_native_plugin h GRANT_GROUP_MEMBERS = Exec_ok"
    "db_server db_no_native_plugin h GRANT_GROUP_MEMBER_STATS = Exec_ok"
    "db_server db_no_native_plugin h UPDATE_ROUTER = Exec_ok"
    "db_server db_no_native_plugin h COMMIT = Exec_ok" for h x
    by (simp_all add: db_no_native_plugin_def)
  have iss: "db_issued db_no_native_plugin = []"
    by (simp add: db_no_native_plugin_def)
  have st: "execute_all [START_TRANSACTION] db_no_native_plugin = (?s1, Inr ())"
    by (simp add: execute_def srv iss)
  have del: "delete_accounts ?s1 = (?s2, Inr ())"
    by (simp add: delete_accounts_def execute_def srv)
  have rej: "db_server db_no_native_plugin (db_issued ?s2) (CREATE_USER_HASHED (id ''secret''))
               = Exec_error ''ERROR:'' 1524"
    by (simp add: srv)
  have acc: "accepted db_no_native_plugin
     (db_issued ?s2 @ [CREATE_USER_HASHED (id ''secret''), ROLLBACK])
     [START_TRANSACTION, CREATE_USER_PLAIN ''secret'',
      GRANT_METADATA, GRANT_GROUP_MEMBERS, GRANT_GROUP_MEMBER_STATS, UPDATE_ROUTER, COMMIT]"
    by (simp add: srv)
  from plugin_not_loaded_retried[OF r h st del, of id "\<lambda>i. ''secret''", OF rej] acc
  have "\<exists>s'. provision_account Map.empty id (\<lambda>i. ''secret'') db_no_native_plugin
            = (s', Inr ''secret'') \<and>
         db_issued s' =
           [START_TRANSACTION, COUNT_ACCOUNTS, DROP_ACCOUNTS,
            CREATE_USER_HASHED ''secret'', ROLLBACK, START_TRANSACTION,
            CREATE_USER_PLAIN ''secret'',
            GRANT_METADATA, GRANT_GROUP_MEMBERS, GRANT_GROUP_MEMBER_STATS,
            UPDATE_ROUTER, COMMIT]"
    by auto
  with r h st del rej acc show ?thesis by simp
qed

end
